theory Spec2Isabelle
  imports Complex_Main "HOL-Library.Sublist"
begin

text \<open>
  A shallow embedding of the shader playground: the shader source templater of each of its
  three script files, the pipeline binder, the frame driver and the two export controllers,
  with the properties their specification states.
\<close>

section \<open>The shader source templater\<close>

subsection \<open>The templater of unnamed/part\_001\<close>

definition header_p001 :: string where
  "header_p001 =
     ''#version 300 es\<newline>'' @
     ''precision highp float;\<newline>'' @
     ''\<newline>'' @
     ''uniform vec2 iResolution;\<newline>'' @
     ''uniform float iTime;\<newline>'' @
     ''uniform float iSpeed;\<newline>'' @
     ''uniform float iZoom;\<newline>'' @
     ''uniform float iWarpStrength;\<newline>'' @
     ''uniform float iGlowSharpness;\<newline>'' @
     ''uniform float iColorPhase;\<newline>'' @
     ''uniform float iIterations;\<newline>'' @
     ''\<newline>'' @
     ''out vec4 fragColor;\<newline>'' @
     ''\<newline>'' @
     ''void main() {\<newline>'' @
     ''    vec2 p = (gl_FragCoord.xy * 2.0 - iResolution) / iResolution.y / iZoom;\<newline>'' @
     ''    vec4 col = vec4(0.0);\<newline>'' @
     ''    float t = iTime * iSpeed;\<newline>''"

definition loopCode_rocaille_p001 :: string where
  "loopCode_rocaille_p001 =
     ''\<newline>'' @
     ''    for (float i = 0.0; i < iIterations; i++) {\<newline>'' @
     ''        vec2 v = p;\<newline>'' @
     ''        for (float f = 1.0; f < 10.0; f++) {\<newline>'' @
     ''            v += sin(v.yx * f + i + iResolution + t) / (f * iWarpStrength);\<newline>'' @
     ''        }\<newline>'' @
     ''        col += (cos(i + iColorPhase + vec4(0.0, 1.0, 2.0, 3.0)) + 1.0) / 6.0 / pow(length(v), iGlowSharpness);\<newline>'' @
     ''    }\<newline>''"

definition loopCode_liquid_p001 :: string where
  "loopCode_liquid_p001 =
     ''\<newline>'' @
     ''    for (float i = 0.0; i < iIterations; i++) {\<newline>'' @
     ''        vec2 v = p;\<newline>'' @
     ''        v += sin(v.yx * 3.0 + i + t) * 0.5 / iWarpStrength;\<newline>'' @
     ''        v += sin(v.yx * 1.5 + i + t) * 0.3 / iWarpStrength;\<newline>'' @
     ''        col += (cos(i + iColorPhase + vec4(0.0, 1.0, 2.0, 3.0)) + 1.0) / 6.0 / pow(length(v), iGlowSharpness);\<newline>'' @
     ''    }\<newline>''"

definition loopCode_electric_p001 :: string where
  "loopCode_electric_p001 =
     ''\<newline>'' @
     ''    for (float i = 0.0; i < iIterations; i++) {\<newline>'' @
     ''        vec2 v = p;\<newline>'' @
     ''        for (float f = 1.0; f < 10.0; f++) {\<newline>'' @
     ''            v += sin(v.yx * f + i + iResolution + t) / (f * iWarpStrength);\<newline>'' @
     ''        }\<newline>'' @
     ''        float dist = abs(v.x) + abs(v.y);\<newline>'' @
     ''        col += (cos(i + iColorPhase + vec4(0.0, 1.0, 2.0, 3.0)) + 1.0) / 6.0 / pow(dist, iGlowSharpness);\<newline>'' @
     ''    }\<newline>''"

definition loopCode_kaleidoscope_p001 :: string where
  "loopCode_kaleidoscope_p001 =
     ''\<newline>'' @
     ''    for (float i = 0.0; i < iIterations; i++) {\<newline>'' @
     ''        vec2 v = abs(p);\<newline>'' @
     ''        for (float f = 1.0; f < 10.0; f++) {\<newline>'' @
     ''            v = abs(v);\<newline>'' @
     ''            v += sin(v.yx * f + i + iResolution + t) / (f * iWarpStrength);\<newline>'' @
     ''        }\<newline>'' @
     ''        col += (cos(i + iColorPhase + vec4(0.0, 1.0, 2.0, 3.0)) + 1.0) / 6.0 / pow(length(v), iGlowSharpness);\<newline>'' @
     ''    }\<newline>''"

definition loopCode_alien_p001 :: string where
  "loopCode_alien_p001 =
     ''\<newline>'' @
     ''    for (float i = 0.0; i < iIterations; i++) {\<newline>'' @
     ''        vec2 v = p;\<newline>'' @
     ''        for (float f = 1.0; f < 10.0; f++) {\<newline>'' @
     ''            v += sin(v.yx * f + i + iResolution + t) / (f * iWarpStrength);\<newline>'' @
     ''        }\<newline>'' @
     ''        vec3 pal = 0.5 + 0.5 * cos(6.28318 * (0.5 * i + iColorPhase + vec3(0.0, 0.33, 0.67)));\<newline>'' @
     ''        col.rgb += pal / pow(length(v), iGlowSharpness) / 6.0;\<newline>'' @
     ''        col.a += 1.0 / pow(length(v), iGlowSharpness) / 6.0;\<newline>'' @
     ''    }\<newline>''"

definition footer_p001 :: string where
  "footer_p001 =
     ''\<newline>'' @
     ''    vec4 result = tanh(col * col);\<newline>'' @
     ''    fragColor = vec4(result.rgb, 1.0);\<newline>'' @
     ''}\<newline>''"

definition loopCode_p001 :: "string \<Rightarrow> string" where
  "loopCode_p001 variation =
     (if variation = ''rocaille'' then loopCode_rocaille_p001
      else if variation = ''liquid'' then loopCode_liquid_p001
      else if variation = ''electric'' then loopCode_electric_p001
      else if variation = ''kaleidoscope'' then loopCode_kaleidoscope_p001
      else if variation = ''alien'' then loopCode_alien_p001
      else [])"

definition generateFragmentShader_p001 :: "string \<Rightarrow> string" where
  "generateFragmentShader_p001 variation = header_p001 @ loopCode_p001 variation @ footer_p001"
subsection \<open>The templater of unnamed/part\_000\<close>

definition header_p000 :: string where
  "header_p000 =
     ''#version 300 es\<newline>'' @
     ''precision highp float;\<newline>'' @
     ''\<newline>'' @
     ''uniform vec2 iResolution;\<newline>'' @
     ''uniform float iTime;\<newline>'' @
     ''uniform float iSpeed;\<newline>'' @
     ''uniform float iZoom;\<newline>'' @
     ''uniform float iWarpStrength;\<newline>'' @
     ''uniform float iGlowSharpness;\<newline>'' @
     ''uniform float iColorPhase;\<newline>'' @
     ''uniform float iIterations;\<newline>'' @
     ''\<newline>'' @
     ''out vec4 fragColor;\<newline>'' @
     ''\<newline>'' @
     ''void main() {\<newline>'' @
     ''    vec2 p = (gl_FragCoord.xy * 2.0 - iResolution) / iResolution.y / iZoom;\<newline>'' @
     ''    vec4 col = vec4(0.0);\<newline>'' @
     ''    float t = iTime * iSpeed;\<newline>''"

definition loopCode_rocaille_p000 :: string where
  "loopCode_rocaille_p000 =
     ''\<newline>'' @
     ''    for (float i = 0.0; i < iIterations; i++) {\<newline>'' @
     ''        vec2 v = p;\<newline>'' @
     ''        for (float f = 1.0; f < 10.0; f++) {\<newline>'' @
     ''            v += sin(v.yx * f + i + iResolution + t) / (f * iWarpStrength);\<newline>'' @
     ''        }\<newline>'' @
     ''        col += (cos(i + iColorPhase + vec4(0.0, 1.0, 2.0, 3.0)) + 1.0) / 6.0 / pow(length(v), iGlowSharpness);\<newline>'' @
     ''    }\<newline>''"

definition loopCode_liquid_p000 :: string where
  "loopCode_liquid_p000 =
     ''\<newline>'' @
     ''    for (float i = 0.0; i < iIterations; i++) {\<newline>'' @
     ''        vec2 v = p;\<newline>'' @
     ''        v += sin(v.yx * 3.0 + i + t) * 0.5 / iWarpStrength;\<newline>'' @
     ''        v += sin(v.yx * 1.5 + i + t) * 0.3 / iWarpStrength;\<newline>'' @
     ''        col += (cos(i + iColorPhase + vec4(0.0, 1.0, 2.0, 3.0)) + 1.0) / 6.0 / pow(length(v), iGlowSharpness);\<newline>'' @
     ''    }\<newline>''"

definition loopCode_electric_p000 :: string where
  "loopCode_electric_p000 =
     ''\<newline>'' @
     ''    for (float i = 0.0; i < iIterations; i++) {\<newline>'' @
     ''        vec2 v = p;\<newline>'' @
     ''        for (float f = 1.0; f < 10.0; f++) {\<newline>'' @
     ''            v += sin(v.yx * f + i + iResolution + t) / (f * iWarpStrength);\<newline>'' @
     ''        }\<newline>'' @
     ''        float dist = abs(v.x) + abs(v.y);\<newline>'' @
     ''        col += (cos(i + iColorPhase + vec4(0.0, 1.0, 2.0, 3.0)) + 1.0) / 6.0 / pow(dist, iGlowSharpness);\<newline>'' @
     ''    }\<newline>''"

definition loopCode_kaleidoscope_p000 :: string where
  "loopCode_kaleidoscope_p000 =
     ''\<newline>'' @
     ''    for (float i = 0.0; i < iIterations; i++) {\<newline>'' @
     ''        vec2 v = abs(p);\<newline>'' @
     ''        for (float f = 1.0; f < 10.0; f++) {\<newline>'' @
     ''            v = abs(v);\<newline>'' @
     ''            v += sin(v.yx * f + i + iResolution + t) / (f * iWarpStrength);\<newline>'' @
     ''        }\<newline>'' @
     ''        col += (cos(i + iColorPhase + vec4(0.0, 1.0, 2.0, 3.0)) + 1.0) / 6.0 / pow(length(v), iGlowSharpness);\<newline>'' @
     ''    }\<newline>''"

definition loopCode_alien_p000 :: string where
  "loopCode_alien_p000 =
     ''\<newline>'' @
     ''    for (float i = 0.0; i < iIterations; i++) {\<newline>'' @
     ''        vec2 v = p;\<newline>'' @
     ''        for (float f = 1.0; f < 10.0; f++) {\<newline>'' @
     ''            v += sin(v.yx * f + i + iResolution + t) / (f * iWarpStrength);\<newline>'' @
     ''        }\<newline>'' @
     ''        vec3 pal = 0.5 + 0.5 * cos(6.28318 * (0.5 * i + iColorPhase + vec3(0.0, 0.33, 0.67)));\<newline>'' @
     ''        col.rgb += pal / pow(length(v), iGlowSharpness) / 6.0;\<newline>'' @
     ''        col.a += 1.0 / pow(length(v), iGlowSharpness) / 6.0;\<newline>'' @
     ''    }\<newline>''"

definition footer_p000 :: string where
  "footer_p000 =
     ''\<newline>'' @
     ''    vec4 result = tanh(col * col);\<newline>'' @
     ''    fragColor = vec4(result.rgb, 1.0);\<newline>'' @
     ''}\<newline>''"

definition loopCode_p000 :: "string \<Rightarrow> string" where
  "loopCode_p000 variation =
     (if variation = ''rocaille'' then loopCode_rocaille_p000
      else if variation = ''liquid'' then loopCode_liquid_p000
      else if variation = ''electric'' then loopCode_electric_p000
      else if variation = ''kaleidoscope'' then loopCode_kaleidoscope_p000
      else if variation = ''alien'' then loopCode_alien_p000
      else [])"

definition generateFragmentShader_p000 :: "string \<Rightarrow> string" where
  "generateFragmentShader_p000 variation = header_p000 @ loopCode_p000 variation @ footer_p000"
subsection \<open>The templater of shader.js\<close>

definition header_sjs :: string where
  "header_sjs =
     ''#version 300 es\<newline>'' @
     ''precision highp float;\<newline>'' @
     ''\<newline>'' @
     ''uniform vec2 iResolution;\<newline>'' @
     ''uniform float iTime;\<newline>'' @
     ''uniform float iSpeed;\<newline>'' @
     ''uniform float iZoom;\<newline>'' @
     ''uniform float iWarpStrength;\<newline>'' @
     ''uniform float iGlowSharpness;\<newline>'' @
     ''uniform float iColorPhase;\<newline>'' @
     ''uniform float iIterations;\<newline>'' @
     ''\<newline>'' @
     ''out vec4 fragColor;\<newline>'' @
     ''\<newline>'' @
     ''void main() {\<newline>'' @
     ''    vec2 p = (gl_FragCoord.xy * 2.0 - iResolution) / iResolution.y / iZoom;\<newline>'' @
     ''    vec4 col = vec4(0.0);\<newline>'' @
     ''    float t = iTime * iSpeed;\<newline>''"

definition loopCode_rocaille_sjs :: string where
  "loopCode_rocaille_sjs =
     ''\<newline>'' @
     ''    for (float i = 0.0; i < iIterations; i++) {\<newline>'' @
     ''        vec2 v = p;\<newline>'' @
     ''        for (float f = 1.0; f < 10.0; f++) {\<newline>'' @
     ''            v += sin(v.yx * f + i + iResolution + t) / (f * iWarpStrength);\<newline>'' @
     ''        }\<newline>'' @
     ''        col += (cos(i + iColorPhase + vec4(0.0, 1.0, 2.0, 3.0)) + 1.0) / 6.0 / pow(length(v), iGlowSharpness);\<newline>'' @
     ''    }\<newline>''"

definition loopCode_liquid_sjs :: string where
  "loopCode_liquid_sjs =
     ''\<newline>'' @
     ''    for (float i = 0.0; i < iIterations; i++) {\<newline>'' @
     ''        vec2 v = p;\<newline>'' @
     ''        // Single frequency wave instead of multi-frequency\<newline>'' @
     ''        v += sin(v.yx * 3.0 + i + t) * 0.5 / iWarpStrength;\<newline>'' @
     ''        v += sin(v.yx * 1.5 + i + t) * 0.3 / iWarpStrength;\<newline>'' @
     ''        col += (cos(i + iColorPhase + vec4(0.0, 1.0, 2.0, 3.0)) + 1.0) / 6.0 / pow(length(v), iGlowSharpness);\<newline>'' @
     ''    }\<newline>''"

definition loopCode_electric_sjs :: string where
  "loopCode_electric_sjs =
     ''\<newline>'' @
     ''    for (float i = 0.0; i < iIterations; i++) {\<newline>'' @
     ''        vec2 v = p;\<newline>'' @
     ''        for (float f = 1.0; f < 10.0; f++) {\<newline>'' @
     ''            v += sin(v.yx * f + i + iResolution + t) / (f * iWarpStrength);\<newline>'' @
     ''        }\<newline>'' @
     ''        // Manhattan distance instead of Euclidean\<newline>'' @
     ''        float dist = abs(v.x) + abs(v.y);\<newline>'' @
     ''        col += (cos(i + iColorPhase + vec4(0.0, 1.0, 2.0, 3.0)) + 1.0) / 6.0 / pow(dist, iGlowSharpness);\<newline>'' @
     ''    }\<newline>''"

definition loopCode_kaleidoscope_sjs :: string where
  "loopCode_kaleidoscope_sjs =
     ''\<newline>'' @
     ''    for (float i = 0.0; i < iIterations; i++) {\<newline>'' @
     ''        vec2 v = abs(p); // Force symmetry\<newline>'' @
     ''        for (float f = 1.0; f < 10.0; f++) {\<newline>'' @
     ''            v = abs(v); // Maintain symmetry each iteration\<newline>'' @
     ''            v += sin(v.yx * f + i + iResolution + t) / (f * iWarpStrength);\<newline>'' @
     ''        }\<newline>'' @
     ''        col += (cos(i + iColorPhase + vec4(0.0, 1.0, 2.0, 3.0)) + 1.0) / 6.0 / pow(length(v), iGlowSharpness);\<newline>'' @
     ''    }\<newline>''"

definition loopCode_alien_sjs :: string where
  "loopCode_alien_sjs =
     ''\<newline>'' @
     ''    for (float i = 0.0; i < iIterations; i++) {\<newline>'' @
     ''        vec2 v = p;\<newline>'' @
     ''        for (float f = 1.0; f < 10.0; f++) {\<newline>'' @
     ''            v += sin(v.yx * f + i + iResolution + t) / (f * iWarpStrength);\<newline>'' @
     ''        }\<newline>'' @
     ''        // IQ palette: a + b*cos(6.28318*(c*t+d))\<newline>'' @
     ''        vec3 pal = 0.5 + 0.5 * cos(6.28318 * (0.5 * i + iColorPhase + vec3(0.0, 0.33, 0.67)));\<newline>'' @
     ''        col.rgb += pal / pow(length(v), iGlowSharpness) / 6.0;\<newline>'' @
     ''        col.a += 1.0 / pow(length(v), iGlowSharpness) / 6.0;\<newline>'' @
     ''    }\<newline>''"

definition footer_sjs :: string where
  "footer_sjs =
     ''\<newline>'' @
     ''    fragColor = tanh(col * col);\<newline>'' @
     ''}\<newline>''"

definition loopCode_sjs :: "string \<Rightarrow> string" where
  "loopCode_sjs variation =
     (if variation = ''rocaille'' then loopCode_rocaille_sjs
      else if variation = ''liquid'' then loopCode_liquid_sjs
      else if variation = ''electric'' then loopCode_electric_sjs
      else if variation = ''kaleidoscope'' then loopCode_kaleidoscope_sjs
      else if variation = ''alien'' then loopCode_alien_sjs
      else [])"

definition generateFragmentShader_sjs :: "string \<Rightarrow> string" where
  "generateFragmentShader_sjs variation = header_sjs @ loopCode_sjs variation @ footer_sjs"
subsection \<open>Vocabulary for the templater's properties\<close>

text \<open>The five variation tags of the \<^verbatim>\<open>switch\<close>.\<close>

definition known_variations :: "string list" where
  "known_variations = [''rocaille'', ''liquid'', ''electric'', ''kaleidoscope'', ''alien'']"

text \<open>\<open>occurrences pat txt\<close> is the number of positions of \<open>txt\<close> at which \<open>pat\<close> starts.\<close>

primrec occurrences :: "'a list \<Rightarrow> 'a list \<Rightarrow> nat" where
  "occurrences pat [] = (if pat = [] then 1 else 0)"
| "occurrences pat (x # xs) = (if prefix pat (x # xs) then 1 else 0) + occurrences pat xs"

text \<open>Two helpers that let the simplifier scan a text in linear time: they branch on an
  already evaluated comparison instead of an \<open>if\<close>.\<close>

fun pre_step :: "bool \<Rightarrow> 'a list \<Rightarrow> 'a list \<Rightarrow> bool" where
  "pre_step False cs xs = False"
| "pre_step True cs xs = prefix cs xs"

fun occ_step :: "bool \<Rightarrow> 'a list \<Rightarrow> 'a list \<Rightarrow> nat" where
  "occ_step False pat xs = occurrences pat xs"
| "occ_step True pat xs = Suc (occurrences pat xs)"

text \<open>The tag of each \<^verbatim>\<open>case\<close> of unnamed/part_001 with the body that case assigns.\<close>

definition variant_bodies_p001 :: "(string \<times> string) list" where
  "variant_bodies_p001 =
     [(''rocaille'', loopCode_rocaille_p001),
      (''liquid'', loopCode_liquid_p001),
      (''electric'', loopCode_electric_p001),
      (''kaleidoscope'', loopCode_kaleidoscope_p001),
      (''alien'', loopCode_alien_p001)]"

text \<open>The tag of each \<^verbatim>\<open>case\<close> of unnamed/part_000 with the body that case assigns.\<close>

definition variant_bodies_p000 :: "(string \<times> string) list" where
  "variant_bodies_p000 =
     [(''rocaille'', loopCode_rocaille_p000),
      (''liquid'', loopCode_liquid_p000),
      (''electric'', loopCode_electric_p000),
      (''kaleidoscope'', loopCode_kaleidoscope_p000),
      (''alien'', loopCode_alien_p000)]"

text \<open>The tag of each \<^verbatim>\<open>case\<close> of shader.js with the body that case assigns.\<close>

definition variant_bodies_sjs :: "(string \<times> string) list" where
  "variant_bodies_sjs =
     [(''rocaille'', loopCode_rocaille_sjs),
      (''liquid'', loopCode_liquid_sjs),
      (''electric'', loopCode_electric_sjs),
      (''kaleidoscope'', loopCode_kaleidoscope_sjs),
      (''alien'', loopCode_alien_sjs)]"

text \<open>What the specification asks of a templater \<open>gen\<close> with header \<open>hdr\<close>, footer
  \<open>ftr\<close> and the table \<open>tbl\<close> of variant bodies: for each tag of the table the output is
  header, the tag's body, footer; header and footer occur exactly once in it; the body
  occurs in it; and the body of no other tag occurs in it.\<close>

definition templates_cleanly ::
  "(string \<Rightarrow> string) \<Rightarrow> string \<Rightarrow> string \<Rightarrow> (string \<times> string) list \<Rightarrow> bool" where
  "templates_cleanly gen hdr ftr tbl =
     (\<forall>(tag, body) \<in> set tbl.
        gen tag = hdr @ body @ ftr \<and>
        occurrences hdr (gen tag) = 1 \<and>
        occurrences ftr (gen tag) = 1 \<and>
        sublist body (gen tag) \<and>
        (\<forall>(tag', body') \<in> set tbl. tag' \<noteq> tag \<longrightarrow> occurrences body' (gen tag) = 0))"
section \<open>JavaScript numbers\<close>

text \<open>
  A JavaScript number is an IEEE-754 double. \<open>Num x\<close> is the finite double of value \<open>x\<close>
  (\<open>Num 0\<close> is \<open>+0\<close>), \<open>NegZero\<close> is \<open>-0\<close>. Every arithmetic operation computes the exact
  result and rounds it to the nearest double, a tie going to the even significand, with
  overflow to an infinity and underflow through the subnormal numbers to a signed zero.
\<close>

datatype jsnum = Num real | NegZero | PosInfinity | NegInfinity | NaN

text \<open>Rounding to the nearest integer, a tie going to the even one.\<close>

definition round_even :: "real \<Rightarrow> int" where
  "round_even x =
     (let f = \<lfloor>x\<rfloor>; d = x - of_int f
      in if d < 1 / 2 then f else if 1 / 2 < d then f + 1 else if even f then f else f + 1)"

text \<open>The binary exponent of a positive number: the \<open>e\<close> with \<open>2\<^sup>e \<le> a < 2\<^sup>e\<^sup>+\<^sup>1\<close>, found by
  halving or doubling, and not below \<open>-1022\<close>, the exponent of the subnormal numbers.\<close>

fun expo_up :: "nat \<Rightarrow> real \<Rightarrow> int" where
  "expo_up n a = (if n = 0 \<or> a < 2 then 0 else 1 + expo_up (n - 1) (a / 2))"

fun expo_down :: "nat \<Rightarrow> real \<Rightarrow> int" where
  "expo_down n a = (if n = 0 \<or> 1 \<le> a then 0 else expo_down (n - 1) (a * 2) - 1)"

declare expo_up.simps [simp del]

declare expo_down.simps [simp del]

definition exponent :: "real \<Rightarrow> int" where
  "exponent a = (if 1 \<le> a then expo_up 1023 a else expo_down 1022 a)"

text \<open>The least magnitude that rounds to an infinity: the largest double plus half of its
  last place.\<close>

definition overflow_threshold :: real where
  "overflow_threshold = 2 ^ 1024 - 2 ^ 970"

text \<open>\<open>to_double x\<close>: the double nearest to the real \<open>x\<close>, with a significand of 53 bits.\<close>

definition to_double :: "real \<Rightarrow> jsnum" where
  "to_double x =
     (let a = \<bar>x\<bar>
      in if a = 0 then Num 0
         else if overflow_threshold \<le> a then (if 0 < x then PosInfinity else NegInfinity)
         else
           let u = 2 powi (exponent a - 52);
               y = of_int (round_even (a / u)) * u
           in if y = 0 then (if 0 < x then Num 0 else NegZero)
              else if 0 < x then Num y else Num (- y))"

text \<open>\<^verbatim>\<open>Math.PI\<close>: the double nearest to \<open>\<pi>\<close>, \<open>0x400921FB54442D18\<close>.\<close>

definition Math_PI :: real where
  "Math_PI = 884279719003555 / 281474976710656"

fun negative :: "jsnum \<Rightarrow> bool" where
  "negative (Num a) = (a < 0)"
| "negative NegZero = True"
| "negative NegInfinity = True"
| "negative PosInfinity = False"
| "negative NaN = False"

fun is_zero :: "jsnum \<Rightarrow> bool" where
  "is_zero (Num a) = (a = 0)"
| "is_zero NegZero = True"
| "is_zero x = False"

fun is_infinite :: "jsnum \<Rightarrow> bool" where
  "is_infinite PosInfinity = True"
| "is_infinite NegInfinity = True"
| "is_infinite x = False"

text \<open>The real value of a finite number.\<close>

fun val :: "jsnum \<Rightarrow> real" where
  "val (Num a) = a"
| "val x = 0"

definition zero_of :: "bool \<Rightarrow> jsnum" where
  "zero_of neg = (if neg then NegZero else Num 0)"

definition infinity_of :: "bool \<Rightarrow> jsnum" where
  "infinity_of neg = (if neg then NegInfinity else PosInfinity)"

text \<open>The operators \<^verbatim>\<open>/\<close>, \<^verbatim>\<open>*\<close> and \<^verbatim>\<open>-\<close>. The sign of a zero or an infinity that results is the
  exclusive or of the signs of the operands.\<close>

definition js_div :: "jsnum \<Rightarrow> jsnum \<Rightarrow> jsnum" where
  "js_div x y =
     (if x = NaN \<or> y = NaN then NaN
      else if is_infinite x then (if is_infinite y then NaN else infinity_of (negative x \<noteq> negative y))
      else if is_infinite y then zero_of (negative x \<noteq> negative y)
      else if is_zero y then (if is_zero x then NaN else infinity_of (negative x \<noteq> negative y))
      else if is_zero x then zero_of (negative x \<noteq> negative y)
      else to_double (val x / val y))"

definition js_mul :: "jsnum \<Rightarrow> jsnum \<Rightarrow> jsnum" where
  "js_mul x y =
     (if x = NaN \<or> y = NaN then NaN
      else if is_infinite x \<or> is_infinite y
        then (if is_zero x \<or> is_zero y then NaN else infinity_of (negative x \<noteq> negative y))
      else if is_zero x \<or> is_zero y then zero_of (negative x \<noteq> negative y)
      else to_double (val x * val y))"

definition js_sub :: "jsnum \<Rightarrow> jsnum \<Rightarrow> jsnum" where
  "js_sub x y =
     (if x = NaN \<or> y = NaN then NaN
      else if is_infinite x then (if is_infinite y \<and> negative x = negative y then NaN else x)
      else if is_infinite y then infinity_of (\<not> negative y)
      else if val x = val y
        then (if is_zero x \<and> negative x \<and> \<not> negative y then NegZero else Num 0)
      else to_double (val x - val y))"

text \<open>\<^verbatim>\<open>Math.ceil\<close> and \<^verbatim>\<open>Math.round\<close> (which rounds a half towards \<open>+\<infinity>\<close>); a negative number
  that rounds to zero gives \<open>-0\<close>.\<close>

fun Math_ceil :: "jsnum \<Rightarrow> jsnum" where
  "Math_ceil (Num a) = (if a < 0 \<and> \<lceil>a\<rceil> = 0 then NegZero else Num (of_int \<lceil>a\<rceil>))"
| "Math_ceil x = x"

fun Math_round :: "jsnum \<Rightarrow> jsnum" where
  "Math_round (Num a) =
     (if a < 0 \<and> \<lfloor>a + 1 / 2\<rfloor> = 0 then NegZero else Num (of_int \<lfloor>a + 1 / 2\<rfloor>))"
| "Math_round x = x"

text \<open>The comparison \<^verbatim>\<open>x >= y\<close>: false as soon as one side is \<^verbatim>\<open>NaN\<close>; the two zeros are
  equal.\<close>

definition js_ge :: "jsnum \<Rightarrow> jsnum \<Rightarrow> bool" where
  "js_ge x y =
     (x \<noteq> NaN \<and> y \<noteq> NaN \<and>
      (x = PosInfinity \<or> y = NegInfinity \<or>
       (\<not> is_infinite x \<and> \<not> is_infinite y \<and> val y \<le> val x)))"

text \<open>The postfix \<^verbatim>\<open>++\<close> on a counter that holds a natural number: adding one is exact below
  \<open>2\<^sup>5\<^sup>3\<close>, and \<open>2\<^sup>5\<^sup>3 + 1\<close> rounds back to \<open>2\<^sup>5\<^sup>3\<close>.\<close>

definition js_inc :: "nat \<Rightarrow> nat" where
  "js_inc k = (if k < 2 ^ 53 then Suc k else k)"

section \<open>The page, the graphics context and the recorder as data\<close>

text \<open>
  A template literal is kept as its pieces, so that no number has to be printed:
  \<^verbatim>\<open>`${a} / ${b} frames`\<close> is \<open>[Number a, Str '' / '', Number b, Str '' frames'']\<close>,
  a plain string \<open>s\<close> is \<open>[Str s]\<close> and the empty string is \<open>[]\<close>.
\<close>

datatype piece = Str string | Number jsnum

type_synonym jstext = "piece list"

type_synonym handle = nat

type_synonym uloc = nat

type_synonym blob = string

datatype shader_type = VERTEX_SHADER | FRAGMENT_SHADER

text \<open>The commands sent to the WebGL2 context, with the constant arguments of the source
  left out (\<^verbatim>\<open>drawArrays\<close> is always \<^verbatim>\<open>TRIANGLE_STRIP, 0, 4\<close>).\<close>

datatype gl_call =
    DeleteProgram handle
  | CreateShader shader_type handle
  | ShaderSource handle string
  | CompileShader handle
  | CreateProgram handle
  | AttachShader handle handle
  | LinkProgram handle
  | UseProgram handle
  | CreateBuffer handle
  | BindBuffer "handle option"
  | BufferData "int list"
  | EnableVertexAttribArray int
  | VertexAttribPointer int
  | ClearColor real real real real
  | Clear
  | Uniform2f "uloc option" jsnum jsnum
  | Uniform1f "uloc option" jsnum
  | DrawArrays
  | Finish

text \<open>The callbacks the code hands to \<^verbatim>\<open>requestAnimationFrame\<close> and \<^verbatim>\<open>setTimeout\<close>.\<close>

datatype callback =
    RenderCb
  | CaptureFramesCb
  | ExportRenderCb
  | FinishSavedCb
  | ClearInfoCb

text \<open>Everything the code does to the world outside its own fields, in the order it does it.\<close>

datatype effect =
    GL gl_call
  | ConsoleError string string
  | ConsoleErrorEvent string "string option"
  | ConsoleLog jstext
  | RequestAnimationFrame callback
  | SetTimeout callback jsnum
  | CaptureStream
  | RecorderStart
  | RecorderStop
  | RequestFrame
  | Download jstext "blob list"
  | CapturerStart
  | CapturerCapture
  | CapturerStop
  | CapturerSave

text \<open>What the WebGL driver answers to the queries of \<^verbatim>\<open>buildShader\<close>.\<close>

record gl_driver =
  compile_status :: "shader_type \<Rightarrow> string \<Rightarrow> bool"
  shader_info_log :: "shader_type \<Rightarrow> string \<Rightarrow> string"
  link_status :: "string \<Rightarrow> string \<Rightarrow> bool"
  program_info_log :: "string \<Rightarrow> string \<Rightarrow> string"
  attrib_location :: "handle \<Rightarrow> string \<Rightarrow> int"
  uniform_location :: "handle \<Rightarrow> string \<Rightarrow> uloc option"

text \<open>What the browser answers to \<^verbatim>\<open>startExport\<close>: the codec test and the number
  \<^verbatim>\<open>parseInt(qualitySelect.value, 10)\<close>.\<close>

record browser =
  isTypeSupported :: "string \<Rightarrow> bool"
  selectedMbps :: jsnum

record parameters =
  variation :: string
  speed :: jsnum
  zoom :: jsnum
  warpStrength :: jsnum
  glowSharpness :: jsnum
  colorPhase :: jsnum
  iterations :: jsnum

text \<open>The fields of \<^verbatim>\<open>ShaderPlayground\<close> that all three files have, with the canvas size,
  the next unused object name of the context and the log of effects.\<close>

record playground =
  params :: parameters
  startTime :: real
  program :: "handle option"
  uniforms :: "string \<rightharpoonup> uloc"
  positionBuffer :: "handle option"
  canvas_width :: nat
  canvas_height :: nat
  fresh :: handle
  effects :: "effect list"

text \<open>The export fields shared by the two unnamed files, with the button \<^verbatim>\<open>recordBtn\<close>
  (its class \<^verbatim>\<open>recording\<close> and \<^verbatim>\<open>disabled\<close>), the label \<^verbatim>\<open>.record-text\<close> and the line
  \<^verbatim>\<open>recordInfo\<close> (its text and its class \<^verbatim>\<open>active\<close>).\<close>

record exporter = playground +
  isExporting :: bool
  exportFrameCount :: jsnum
  currentFrame :: nat
  button_recording :: bool
  button_disabled :: bool
  textEl :: jstext
  infoEl :: jstext
  infoEl_active :: bool

record recorder =
  mimeType :: string
  videoBitsPerSecond :: jsnum

text \<open>unnamed/part\_001 records with a \<^verbatim>\<open>MediaRecorder\<close>.\<close>

record exporter_p001 = exporter +
  mediaRecorder :: "recorder option"
  recordedChunks :: "blob list"

record capturer =
  format :: string
  framerate :: jsnum
  quality :: jsnum
  capture_name :: jstext
  verbose :: bool

text \<open>unnamed/part\_000 records with the \<^verbatim>\<open>CCapture\<close> library.\<close>

record exporter_p000 = exporter +
  capturer :: "capturer option"
  exportTime :: jsnum
  exportDuration :: jsnum

definition emit :: "effect list \<Rightarrow> 'a playground_scheme \<Rightarrow> 'a playground_scheme" where
  "emit es s = s\<lparr>effects := effects s @ es\<rparr>"

section \<open>The pipeline binder and the frame driver\<close>

definition vertexShaderSource :: string where
  "vertexShaderSource =
     ''#version 300 es\<newline>'' @
     ''in vec4 aPosition;\<newline>'' @
     ''void main() {\<newline>'' @
     ''    gl_Position = aPosition;\<newline>'' @
     ''}\<newline>''"

text \<open>\<^verbatim>\<open>initGeometry\<close>, the same in the three files.\<close>

definition initGeometry :: "'a playground_scheme \<Rightarrow> 'a playground_scheme" where
  "initGeometry s =
     (let buffer = fresh s
      in emit [GL (CreateBuffer buffer), GL (BindBuffer (Some buffer)),
               GL (BufferData [-1, -1, 1, -1, -1, 1, 1, 1])]
           (s\<lparr>fresh := Suc buffer, positionBuffer := Some buffer\<rparr>))"

text \<open>The object literal that \<^verbatim>\<open>buildShader\<close> assigns to \<^verbatim>\<open>this.uniforms\<close>: eight names, each
  with the location the driver returns (a \<^verbatim>\<open>null\<close> location is an absent entry).\<close>

definition uniform_names :: "string list" where
  "uniform_names =
     [''iResolution'', ''iTime'', ''iSpeed'', ''iZoom'', ''iWarpStrength'', ''iGlowSharpness'',
      ''iColorPhase'', ''iIterations'']"

definition cache_uniforms :: "gl_driver \<Rightarrow> handle \<Rightarrow> (string \<rightharpoonup> uloc)" where
  "cache_uniforms gl prog =
     (\<lambda>n. if n \<in> set uniform_names then uniform_location gl prog n else None)"

text \<open>\<^verbatim>\<open>buildShader\<close> of unnamed/part\_001. Every \<^verbatim>\<open>return\<close> of the source is a branch that
  ends the function with the state reached so far.\<close>

definition buildShader_p001 ::
  "gl_driver \<Rightarrow> string \<Rightarrow> 'a playground_scheme \<Rightarrow> 'a playground_scheme" where
  "buildShader_p001 gl tag s =
     (let s1 = (case program s of Some old \<Rightarrow> emit [GL (DeleteProgram old)] s | None \<Rightarrow> s);
          vertexShader = fresh s1;
          s2 = emit [GL (CreateShader VERTEX_SHADER vertexShader),
                     GL (ShaderSource vertexShader vertexShaderSource),
                     GL (CompileShader vertexShader)] (s1\<lparr>fresh := Suc vertexShader\<rparr>)
      in if \<not> compile_status gl VERTEX_SHADER vertexShaderSource
         then emit [ConsoleError ''Vertex shader error:''
                      (shader_info_log gl VERTEX_SHADER vertexShaderSource)] s2
         else
           let fragmentSource = generateFragmentShader_p001 tag;
               fragmentShader = fresh s2;
               s3 = emit [GL (CreateShader FRAGMENT_SHADER fragmentShader),
                          GL (ShaderSource fragmentShader fragmentSource),
                          GL (CompileShader fragmentShader)] (s2\<lparr>fresh := Suc fragmentShader\<rparr>)
           in if \<not> compile_status gl FRAGMENT_SHADER fragmentSource
              then emit [ConsoleError ''Fragment shader error:''
                           (shader_info_log gl FRAGMENT_SHADER fragmentSource)] s3
              else
                let prog = fresh s3;
                    s4 = emit [GL (CreateProgram prog), GL (AttachShader prog vertexShader),
                               GL (AttachShader prog fragmentShader), GL (LinkProgram prog)]
                           (s3\<lparr>fresh := Suc prog, program := Some prog\<rparr>)
                in if \<not> link_status gl vertexShaderSource fragmentSource
                   then emit [ConsoleError ''Program link error:''
                                (program_info_log gl vertexShaderSource fragmentSource)] s4
                   else
                     let aPosition = attrib_location gl prog ''aPosition'';
                         s5 = emit [GL (UseProgram prog), GL (BindBuffer (positionBuffer s4)),
                                    GL (EnableVertexAttribArray aPosition),
                                    GL (VertexAttribPointer aPosition)] s4
                     in s5\<lparr>uniforms := cache_uniforms gl prog\<rparr>)"



text \<open>The eight uniform writes that \<^verbatim>\<open>render\<close> and the export loop both spell out, with the
  time they are given.\<close>

definition write_uniforms :: "'a playground_scheme \<Rightarrow> jsnum \<Rightarrow> effect list" where
  "write_uniforms s time =
     [GL (Uniform2f (uniforms s ''iResolution'') (Num (real (canvas_width s)))
            (Num (real (canvas_height s)))),
      GL (Uniform1f (uniforms s ''iTime'') time),
      GL (Uniform1f (uniforms s ''iSpeed'') (speed (params s))),
      GL (Uniform1f (uniforms s ''iZoom'') (zoom (params s))),
      GL (Uniform1f (uniforms s ''iWarpStrength'') (warpStrength (params s))),
      GL (Uniform1f (uniforms s ''iGlowSharpness'') (glowSharpness (params s))),
      GL (Uniform1f (uniforms s ''iColorPhase'') (colorPhase (params s))),
      GL (Uniform1f (uniforms s ''iIterations'') (iterations (params s)))]"

text \<open>\<^verbatim>\<open>render\<close> of shader.js; \<open>now\<close> is the double that \<^verbatim>\<open>performance.now()\<close> returns.\<close>

definition render_sjs :: "real \<Rightarrow> 'a playground_scheme \<Rightarrow> 'a playground_scheme" where
  "render_sjs now s =
     (let time = js_div (js_sub (Num now) (Num (startTime s))) (Num 1000)
      in emit (write_uniforms s time @ [GL DrawArrays, RequestAnimationFrame RenderCb]) s)"

text \<open>\<^verbatim>\<open>render\<close> of the two unnamed files (the same text in both).\<close>

definition render :: "real \<Rightarrow> 'a exporter_scheme \<Rightarrow> 'a exporter_scheme" where
  "render now s =
     (if isExporting s then emit [RequestAnimationFrame RenderCb] s
      else
        let time = js_div (js_sub (Num now) (Num (startTime s))) (Num 1000)
        in emit ([GL (ClearColor 0 0 0 1), GL Clear] @ write_uniforms s time @
                 [GL DrawArrays, RequestAnimationFrame RenderCb]) s)"

section \<open>The export controller\<close>

text \<open>\<^verbatim>\<open>getLoopDuration\<close>, the same in both unnamed files.\<close>

definition getLoopDuration :: "'a playground_scheme \<Rightarrow> jsnum" where
  "getLoopDuration s = js_div (js_mul (Num 2) (Num Math_PI)) (speed (params s))"

subsection \<open>unnamed/part\_001: recording with a MediaRecorder\<close>

definition captureFrames :: "exporter_p001 \<Rightarrow> exporter_p001" where
  "captureFrames s =
     (if js_ge (Num (real (currentFrame s))) (exportFrameCount s) then emit [RecorderStop] s
      else
        let fps = Num 60;
            frameTime = js_div (Num (real (currentFrame s))) fps;
            s1 = emit ([GL (ClearColor 0 0 0 1), GL Clear] @ write_uniforms s frameTime @
                       [GL DrawArrays, GL Finish, RequestFrame]) s;
            s2 = s1\<lparr>currentFrame := js_inc (currentFrame s1)\<rparr>;
            progress = Math_round (js_mul (js_div (Num (real (currentFrame s2)))
                                             (exportFrameCount s2)) (Num 100));
            s3 = s2\<lparr>textEl := [Str ''Recording '', Number progress, Str ''%''],
                     infoEl := [Number (Num (real (currentFrame s2))), Str '' / '',
                                Number (exportFrameCount s2), Str '' frames'']\<rparr>
        in emit [SetTimeout CaptureFramesCb (js_div (Num 1000) (Num 60))] s3)"

definition startExport :: "browser \<Rightarrow> exporter_p001 \<Rightarrow> exporter_p001" where
  "startExport br s =
     (let fps = Num 60;
          loopDuration = getLoopDuration s;
          s1 = s\<lparr>exportFrameCount := Math_ceil (js_mul loopDuration fps), currentFrame := 0,
                  recordedChunks := [], isExporting := True, button_recording := True,
                  button_disabled := True, textEl := [Str ''Recording...'']\<rparr>;
          s2 = s1\<lparr>infoEl := [Str ''0 / '', Number (exportFrameCount s1), Str '' frames''],
                   infoEl_active := True\<rparr>;
          s3 = emit [CaptureStream] s2;
          mime =
            (if isTypeSupported br ''video/webm;codecs=vp9'' then ''video/webm;codecs=vp9''
             else if isTypeSupported br ''video/webm;codecs=vp8'' then ''video/webm;codecs=vp8''
             else ''video/webm'');
          targetBitrate = js_mul (selectedMbps br) (Num 1000000);
          s4 = s3\<lparr>mediaRecorder :=
                     Some \<lparr>mimeType = mime, videoBitsPerSecond = targetBitrate\<rparr>\<rparr>;
          s5 = emit [RecorderStart] s4
      in captureFrames s5)"

text \<open>The click handler that \<^verbatim>\<open>setupExport\<close> installs on the record button.\<close>

definition recordBtn_click :: "browser \<Rightarrow> exporter_p001 \<Rightarrow> exporter_p001" where
  "recordBtn_click br s = (if isExporting s then s else startExport br s)"

text \<open>\<^verbatim>\<open>finishExport\<close>; \<open>date_now\<close> and \<open>now\<close> are what \<^verbatim>\<open>Date.now()\<close> and
  \<^verbatim>\<open>performance.now()\<close> return.\<close>

definition finishExport :: "real \<Rightarrow> real \<Rightarrow> exporter_p001 \<Rightarrow> exporter_p001" where
  "finishExport date_now now s =
     (let s1 = emit [Download [Str ''shader_'', Str (variation (params s)), Str ''_'',
                               Number (Num date_now), Str ''.webm''] (recordedChunks s)] s;
          s2 = s1\<lparr>recordedChunks := [], isExporting := False, button_recording := False,
                   button_disabled := False, textEl := [Str ''Export Video''],
                   infoEl := [Str ''Download complete!''], startTime := now\<rparr>
      in emit [SetTimeout ClearInfoCb (Num 3000)] s2)"

text \<open>The three handlers that \<^verbatim>\<open>startExport\<close> installs on the recorder. The event of
  \<^verbatim>\<open>onerror\<close> is given by its \<^verbatim>\<open>e.error?.message\<close>, absent or a string.\<close>

definition mediaRecorder_ondataavailable :: "blob \<Rightarrow> exporter_p001 \<Rightarrow> exporter_p001" where
  "mediaRecorder_ondataavailable data s =
     (if 0 < length data then s\<lparr>recordedChunks := recordedChunks s @ [data]\<rparr> else s)"

definition mediaRecorder_onstop :: "real \<Rightarrow> real \<Rightarrow> exporter_p001 \<Rightarrow> exporter_p001" where
  "mediaRecorder_onstop date_now now s = finishExport date_now now s"

definition mediaRecorder_onerror :: "string option \<Rightarrow> exporter_p001 \<Rightarrow> exporter_p001" where
  "mediaRecorder_onerror message s =
     (let s1 = emit [ConsoleErrorEvent ''MediaRecorder error:'' message] s
      in s1\<lparr>textEl := [Str ''Export failed''],
             infoEl := (case message of
                          Some m \<Rightarrow> if m = [] then [Str ''Recording error''] else [Str m]
                        | None \<Rightarrow> [Str ''Recording error'']),
             button_disabled := False, button_recording := False, isExporting := False\<rparr>)"

text \<open>The callback that \<^verbatim>\<open>finishExport\<close> schedules after 3000 ms.\<close>

definition clearInfo :: "exporter_p001 \<Rightarrow> exporter_p001" where
  "clearInfo s = s\<lparr>infoEl := [], infoEl_active := False\<rparr>"

text \<open>What each callback that unnamed/part\_001 hands to \<^verbatim>\<open>requestAnimationFrame\<close> or
  \<^verbatim>\<open>setTimeout\<close> does when the browser runs it at time \<open>now\<close>.\<close>

fun run_callback :: "callback \<Rightarrow> real \<Rightarrow> exporter_p001 \<Rightarrow> exporter_p001" where
  "run_callback RenderCb now s = render now s"
| "run_callback CaptureFramesCb now s = captureFrames s"
| "run_callback ClearInfoCb now s = clearInfo s"
| "run_callback cb now s = s"

text \<open>One session as the event loop runs it when nothing else happens in between: the call
  of \<^verbatim>\<open>startExport\<close>, then one call of \<^verbatim>\<open>captureFrames\<close> for each timer that the previous
  call has set. The source puts no bound on the number of timers, so the model counts
  them down and returns \<open>None\<close> when a timer is still pending at the end of the count.\<close>

definition rescheduled :: "exporter_p001 \<Rightarrow> bool" where
  "rescheduled s =
     (effects s \<noteq> [] \<and> last (effects s) = SetTimeout CaptureFramesCb (js_div (Num 1000) (Num 60)))"

primrec run_timers :: "nat \<Rightarrow> exporter_p001 \<Rightarrow> exporter_p001 option" where
  "run_timers 0 s = (if rescheduled s then None else Some s)"
| "run_timers (Suc fuel) s =
     (if rescheduled s then run_timers fuel (captureFrames s) else Some s)"

definition export_session :: "nat \<Rightarrow> browser \<Rightarrow> exporter_p001 \<Rightarrow> exporter_p001 option" where
  "export_session fuel br s = run_timers fuel (startExport br s)"

text \<open>What the export loop of unnamed/part\_001 sends out for one frame drawn at time \<open>t\<close>.\<close>

definition export_frame :: "'a playground_scheme \<Rightarrow> jsnum \<Rightarrow> effect list" where
  "export_frame s t =
     [GL (ClearColor 0 0 0 1), GL Clear] @ write_uniforms s t @
     [GL DrawArrays, GL Finish, RequestFrame, SetTimeout CaptureFramesCb (js_div (Num 1000) (Num 60))]"

subsection \<open>unnamed/part\_000: recording with CCapture\<close>

definition finishExport_p000 :: "exporter_p000 \<Rightarrow> exporter_p000" where
  "finishExport_p000 s =
     emit [CapturerStop, CapturerSave, SetTimeout FinishSavedCb (Num 500)]
       (s\<lparr>textEl := [Str ''Saving...'']\<rparr>)"

definition exportRender :: "exporter_p000 \<Rightarrow> exporter_p000" where
  "exportRender s =
     (if js_ge (Num (real (currentFrame s))) (exportFrameCount s) then finishExport_p000 s
      else
        let fps = Num 60;
            frameTime = js_div (Num (real (currentFrame s))) fps;
            s1 = emit ([GL (ClearColor 0 0 0 1), GL Clear] @ write_uniforms s frameTime @
                       [GL DrawArrays, CapturerCapture]) s;
            s2 = s1\<lparr>currentFrame := js_inc (currentFrame s1)\<rparr>;
            progress = Math_round (js_mul (js_div (Num (real (currentFrame s2)))
                                             (exportFrameCount s2)) (Num 100));
            s3 = s2\<lparr>textEl := [Str ''Exporting '', Number progress, Str ''%''],
                     infoEl := [Number (Num (real (currentFrame s2))), Str '' / '',
                                Number (exportFrameCount s2), Str '' frames'']\<rparr>
        in emit [RequestAnimationFrame ExportRenderCb] s3)"

definition startExport_p000 :: "real \<Rightarrow> exporter_p000 \<Rightarrow> exporter_p000" where
  "startExport_p000 date_now s =
     (let fps = Num 60;
          loopDuration = getLoopDuration s;
          s1 = s\<lparr>exportFrameCount := Math_ceil (js_mul loopDuration fps),
                  exportDuration := loopDuration, currentFrame := 0, exportTime := Num 0,
                  isExporting := True, button_recording := True, button_disabled := True,
                  textEl := [Str ''Exporting...'']\<rparr>;
          s2 = s1\<lparr>infoEl := [Str ''0 / '', Number (exportFrameCount s1), Str '' frames''],
                   infoEl_active := True\<rparr>;
          s3 = s2\<lparr>capturer :=
                     Some \<lparr>format = ''webm'', framerate = fps, quality = Num 100,
                           capture_name = [Str ''shader_'', Str (variation (params s2)),
                                           Str ''_'', Number (Num date_now)],
                           verbose = False\<rparr>\<rparr>;
          s4 = emit [CapturerStart] s3
      in exportRender s4)"

definition recordBtn_click_p000 :: "real \<Rightarrow> exporter_p000 \<Rightarrow> exporter_p000" where
  "recordBtn_click_p000 date_now s = (if isExporting s then s else startExport_p000 date_now s)"

text \<open>The callback that \<^verbatim>\<open>finishExport\<close> schedules after 500 ms, and the one that callback
  schedules after 3000 ms.\<close>

definition finishSaved_p000 :: "real \<Rightarrow> exporter_p000 \<Rightarrow> exporter_p000" where
  "finishSaved_p000 now s =
     emit [SetTimeout ClearInfoCb (Num 3000)]
       (s\<lparr>isExporting := False, button_recording := False, button_disabled := False,
          textEl := [Str ''Export Video''], infoEl := [Str ''Download complete!''],
          infoEl_active := False, startTime := now\<rparr>)"

definition clearInfo_p000 :: "exporter_p000 \<Rightarrow> exporter_p000" where
  "clearInfo_p000 s = s\<lparr>infoEl := []\<rparr>"

text \<open>What each callback of unnamed/part\_000 does when the browser runs it at time \<open>now\<close>.\<close>

fun run_callback_p000 :: "callback \<Rightarrow> real \<Rightarrow> exporter_p000 \<Rightarrow> exporter_p000" where
  "run_callback_p000 RenderCb now s = render now s"
| "run_callback_p000 ExportRenderCb now s = exportRender s"
| "run_callback_p000 FinishSavedCb now s = finishSaved_p000 now s"
| "run_callback_p000 ClearInfoCb now s = clearInfo_p000 s"
| "run_callback_p000 cb now s = s"

text \<open>One session of unnamed/part\_000, in the same way: \<^verbatim>\<open>startExport\<close>, then one call of
  \<^verbatim>\<open>exportRender\<close> for each animation frame the previous call has requested.\<close>

definition rescheduled_p000 :: "exporter_p000 \<Rightarrow> bool" where
  "rescheduled_p000 s =
     (effects s \<noteq> [] \<and> last (effects s) = RequestAnimationFrame ExportRenderCb)"

primrec run_frames_p000 :: "nat \<Rightarrow> exporter_p000 \<Rightarrow> exporter_p000 option" where
  "run_frames_p000 0 s = (if rescheduled_p000 s then None else Some s)"
| "run_frames_p000 (Suc fuel) s =
     (if rescheduled_p000 s then run_frames_p000 fuel (exportRender s) else Some s)"

definition export_session_p000 :: "nat \<Rightarrow> real \<Rightarrow> exporter_p000 \<Rightarrow> exporter_p000 option" where
  "export_session_p000 fuel date_now s = run_frames_p000 fuel (startExport_p000 date_now s)"

definition export_frame_p000 :: "'a playground_scheme \<Rightarrow> jsnum \<Rightarrow> effect list" where
  "export_frame_p000 s t =
     [GL (ClearColor 0 0 0 1), GL Clear] @ write_uniforms s t @
     [GL DrawArrays, CapturerCapture, RequestAnimationFrame ExportRenderCb]"

section \<open>States for concrete runs\<close>

text \<open>The field values that the constructors of the two unnamed files assign (the parameter
  defaults included), on a canvas of the given size and with the export button as the page
  shows it at rest; a driver that accepts every source and a browser that supports every
  codec.\<close>

definition construct_p001 :: "real \<Rightarrow> nat \<Rightarrow> nat \<Rightarrow> exporter_p001" where
  "construct_p001 now w h =
     \<lparr>params = \<lparr>variation = ''rocaille'', speed = Num 1, zoom = Num (3 / 10),
                 warpStrength = Num 1, glowSharpness = Num 1, colorPhase = Num 0,
                 iterations = Num 10\<rparr>,
      startTime = now, program = None, uniforms = Map.empty, positionBuffer = None,
      canvas_width = w, canvas_height = h, fresh = 0, effects = [],
      isExporting = False, exportFrameCount = Num 0, currentFrame = 0,
      button_recording = False, button_disabled = False, textEl = [Str ''Export Video''],
      infoEl = [], infoEl_active = False,
      mediaRecorder = None, recordedChunks = []\<rparr>"

definition construct_p000 :: "real \<Rightarrow> nat \<Rightarrow> nat \<Rightarrow> exporter_p000" where
  "construct_p000 now w h =
     \<lparr>params = \<lparr>variation = ''rocaille'', speed = Num 1, zoom = Num (3 / 10),
                 warpStrength = Num 1, glowSharpness = Num 1, colorPhase = Num 0,
                 iterations = Num 10\<rparr>,
      startTime = now, program = None, uniforms = Map.empty, positionBuffer = None,
      canvas_width = w, canvas_height = h, fresh = 0, effects = [],
      isExporting = False, exportFrameCount = Num 0, currentFrame = 0,
      button_recording = False, button_disabled = False, textEl = [Str ''Export Video''],
      infoEl = [], infoEl_active = False,
      capturer = None, exportTime = Num 0, exportDuration = Num 0\<rparr>"

text \<open>The same playgrounds after the speed slider has been set to 120.\<close>

definition fast_p001 :: exporter_p001 where
  "fast_p001 =
     (construct_p001 0 300 150)\<lparr>params := (params (construct_p001 0 300 150))\<lparr>speed := Num 120\<rparr>\<rparr>"

definition fast_p000 :: exporter_p000 where
  "fast_p000 =
     (construct_p000 0 300 150)\<lparr>params := (params (construct_p000 0 300 150))\<lparr>speed := Num 120\<rparr>\<rparr>"

definition accepting_driver :: gl_driver where
  "accepting_driver =
     \<lparr>compile_status = (\<lambda>t src. True), shader_info_log = (\<lambda>t src. []),
      link_status = (\<lambda>v f. True), program_info_log = (\<lambda>v f. []),
      attrib_location = (\<lambda>p n. 0), uniform_location = (\<lambda>p n. Some 0)\<rparr>"

definition plain_browser :: browser where
  "plain_browser = \<lparr>isTypeSupported = (\<lambda>t. True), selectedMbps = Num 8\<rparr>"

section \<open>Vocabulary for the properties of the drivers\<close>

text \<open>The effects that a step from \<open>s\<close> to \<open>s'\<close> has added to the log.\<close>

definition new_effects :: "'a playground_scheme \<Rightarrow> 'a playground_scheme \<Rightarrow> effect list" where
  "new_effects s s' = drop (length (effects s)) (effects s')"

text \<open>The commands among some effects that write a uniform or draw.\<close>

fun draws :: "effect \<Rightarrow> bool" where
  "draws (GL (Uniform2f l x y)) = True"
| "draws (GL (Uniform1f l x)) = True"
| "draws (GL DrawArrays) = True"
| "draws e = False"










definition built_p001 :: exporter_p001 where
  "built_p001 =
     buildShader_p001 accepting_driver ''rocaille'' (initGeometry (construct_p001 0 300 150))"

definition started_p001 :: exporter_p001 where
  "started_p001 = startExport plain_browser built_p001"

definition recording_p001 :: exporter_p001 where
  "recording_p001 =
     mediaRecorder_ondataavailable ''partial'' (startExport plain_browser built_p001)"

definition failed_p001 :: exporter_p001 where
  "failed_p001 = mediaRecorder_onerror (Some ''encoder failed'') recording_p001"

text \<open>The page of unnamed/part\_001 as its constructor leaves it, with the first call of the
  live driver made; an export started there; and that export after one tick of the live
  driver and an error event of the recorder.\<close>

definition live_p001 :: exporter_p001 where
  "live_p001 = render 0 built_p001"

definition exporting_p001 :: exporter_p001 where
  "exporting_p001 = startExport plain_browser live_p001"

definition errored_p001 :: exporter_p001 where
  "errored_p001 =
     mediaRecorder_onerror (Some ''encoder failed'') (run_callback RenderCb 16 exporting_p001)"

section \<open>Properties of the shader source templater\<close>

lemmas p001_defs = generateFragmentShader_p001_def loopCode_p001_def header_p001_def footer_p001_def
  loopCode_rocaille_p001_def loopCode_liquid_p001_def loopCode_electric_p001_def
  loopCode_kaleidoscope_p001_def loopCode_alien_p001_def

lemmas p000_defs = generateFragmentShader_p000_def loopCode_p000_def header_p000_def footer_p000_def
  loopCode_rocaille_p000_def loopCode_liquid_p000_def loopCode_electric_p000_def
  loopCode_kaleidoscope_p000_def loopCode_alien_p000_def

lemmas sjs_defs = generateFragmentShader_sjs_def loopCode_sjs_def header_sjs_def footer_sjs_def
  loopCode_rocaille_sjs_def loopCode_liquid_sjs_def loopCode_electric_sjs_def
  loopCode_kaleidoscope_sjs_def loopCode_alien_sjs_def

lemma prefix_eval: "prefix (c # cs) (x # xs) = pre_step (c = x) cs xs"
  by (cases "c = x") simp_all

lemma occ_eval: "occurrences pat (x # xs) = occ_step (prefix pat (x # xs)) pat xs"
  by (cases "prefix pat (x # xs)") simp_all

lemma occ_Nil: "occurrences (c # cs) [] = 0"
  by simp

lemmas occ_evals = append.simps prefix_eval occ_eval occ_Nil pre_step.simps occ_step.simps
  char.inject simp_thms prefix_code list.simps if_False if_True

subsection \<open>Each known tag selects its own body\<close>

lemma gen_rocaille_p001:
  "generateFragmentShader_p001 ''rocaille'' = header_p001 @ loopCode_rocaille_p001 @ footer_p001"
  by (simp add: generateFragmentShader_p001_def loopCode_p001_def)

lemma gen_liquid_p001:
  "generateFragmentShader_p001 ''liquid'' = header_p001 @ loopCode_liquid_p001 @ footer_p001"
  by (simp add: generateFragmentShader_p001_def loopCode_p001_def)

lemma gen_electric_p001:
  "generateFragmentShader_p001 ''electric'' = header_p001 @ loopCode_electric_p001 @ footer_p001"
  by (simp add: generateFragmentShader_p001_def loopCode_p001_def)

lemma gen_kaleidoscope_p001:
  "generateFragmentShader_p001 ''kaleidoscope'' = header_p001 @ loopCode_kaleidoscope_p001 @ footer_p001"
  by (simp add: generateFragmentShader_p001_def loopCode_p001_def)

lemma gen_alien_p001:
  "generateFragmentShader_p001 ''alien'' = header_p001 @ loopCode_alien_p001 @ footer_p001"
  by (simp add: generateFragmentShader_p001_def loopCode_p001_def)

lemma gen_rocaille_p000:
  "generateFragmentShader_p000 ''rocaille'' = header_p000 @ loopCode_rocaille_p000 @ footer_p000"
  by (simp add: generateFragmentShader_p000_def loopCode_p000_def)

lemma gen_liquid_p000:
  "generateFragmentShader_p000 ''liquid'' = header_p000 @ loopCode_liquid_p000 @ footer_p000"
  by (simp add: generateFragmentShader_p000_def loopCode_p000_def)

lemma gen_electric_p000:
  "generateFragmentShader_p000 ''electric'' = header_p000 @ loopCode_electric_p000 @ footer_p000"
  by (simp add: generateFragmentShader_p000_def loopCode_p000_def)

lemma gen_kaleidoscope_p000:
  "generateFragmentShader_p000 ''kaleidoscope'' = header_p000 @ loopCode_kaleidoscope_p000 @ footer_p000"
  by (simp add: generateFragmentShader_p000_def loopCode_p000_def)

lemma gen_alien_p000:
  "generateFragmentShader_p000 ''alien'' = header_p000 @ loopCode_alien_p000 @ footer_p000"
  by (simp add: generateFragmentShader_p000_def loopCode_p000_def)

lemma gen_rocaille_sjs:
  "generateFragmentShader_sjs ''rocaille'' = header_sjs @ loopCode_rocaille_sjs @ footer_sjs"
  by (simp add: generateFragmentShader_sjs_def loopCode_sjs_def)

lemma gen_liquid_sjs:
  "generateFragmentShader_sjs ''liquid'' = header_sjs @ loopCode_liquid_sjs @ footer_sjs"
  by (simp add: generateFragmentShader_sjs_def loopCode_sjs_def)

lemma gen_electric_sjs:
  "generateFragmentShader_sjs ''electric'' = header_sjs @ loopCode_electric_sjs @ footer_sjs"
  by (simp add: generateFragmentShader_sjs_def loopCode_sjs_def)

lemma gen_kaleidoscope_sjs:
  "generateFragmentShader_sjs ''kaleidoscope'' = header_sjs @ loopCode_kaleidoscope_sjs @ footer_sjs"
  by (simp add: generateFragmentShader_sjs_def loopCode_sjs_def)

lemma gen_alien_sjs:
  "generateFragmentShader_sjs ''alien'' = header_sjs @ loopCode_alien_sjs @ footer_sjs"
  by (simp add: generateFragmentShader_sjs_def loopCode_sjs_def)

subsection \<open>The two unnamed files carry the same texts\<close>

lemma header_p000_p001: "header_p000 = header_p001"
  unfolding header_p000_def header_p001_def by (rule refl)

lemma footer_p000_p001: "footer_p000 = footer_p001"
  unfolding footer_p000_def footer_p001_def by (rule refl)

lemma loopCode_rocaille_p000_p001: "loopCode_rocaille_p000 = loopCode_rocaille_p001"
  unfolding loopCode_rocaille_p000_def loopCode_rocaille_p001_def by (rule refl)

lemma loopCode_liquid_p000_p001: "loopCode_liquid_p000 = loopCode_liquid_p001"
  unfolding loopCode_liquid_p000_def loopCode_liquid_p001_def by (rule refl)

lemma loopCode_electric_p000_p001: "loopCode_electric_p000 = loopCode_electric_p001"
  unfolding loopCode_electric_p000_def loopCode_electric_p001_def by (rule refl)

lemma loopCode_kaleidoscope_p000_p001: "loopCode_kaleidoscope_p000 = loopCode_kaleidoscope_p001"
  unfolding loopCode_kaleidoscope_p000_def loopCode_kaleidoscope_p001_def by (rule refl)

lemma loopCode_alien_p000_p001: "loopCode_alien_p000 = loopCode_alien_p001"
  unfolding loopCode_alien_p000_def loopCode_alien_p001_def by (rule refl)

lemma loopCode_p000_p001: "loopCode_p000 v = loopCode_p001 v"
  by (simp add: loopCode_p000_def loopCode_p001_def loopCode_rocaille_p000_p001
      loopCode_liquid_p000_p001 loopCode_electric_p000_p001 loopCode_kaleidoscope_p000_p001
      loopCode_alien_p000_p001)

lemma templaters_agree: "generateFragmentShader_p000 v = generateFragmentShader_p001 v"
  by (simp add: generateFragmentShader_p000_def generateFragmentShader_p001_def
      header_p000_p001 footer_p000_p001 loopCode_p000_p001)

lemma variant_bodies_p000_p001: "variant_bodies_p000 = variant_bodies_p001"
  by (simp add: variant_bodies_p000_def variant_bodies_p001_def loopCode_rocaille_p000_p001
      loopCode_liquid_p000_p001 loopCode_electric_p000_p001 loopCode_kaleidoscope_p000_p001
      loopCode_alien_p000_p001)

subsection \<open>Counting header, footer and foreign bodies in each output\<close>

lemma occ_header_rocaille_p001:
  "occurrences header_p001 (header_p001 @ loopCode_rocaille_p001 @ footer_p001) = 1"
  unfolding p001_defs by (simp only: occ_evals)

lemma occ_footer_rocaille_p001:
  "occurrences footer_p001 (header_p001 @ loopCode_rocaille_p001 @ footer_p001) = 1"
  unfolding p001_defs by (simp only: occ_evals)

lemma occ_foreign_rocaille_p001:
  "occurrences loopCode_liquid_p001 (header_p001 @ loopCode_rocaille_p001 @ footer_p001) = 0 \<and>
   occurrences loopCode_electric_p001 (header_p001 @ loopCode_rocaille_p001 @ footer_p001) = 0 \<and>
   occurrences loopCode_kaleidoscope_p001 (header_p001 @ loopCode_rocaille_p001 @ footer_p001) = 0 \<and>
   occurrences loopCode_alien_p001 (header_p001 @ loopCode_rocaille_p001 @ footer_p001) = 0"
  unfolding p001_defs by (simp only: occ_evals)

lemma occ_header_liquid_p001:
  "occurrences header_p001 (header_p001 @ loopCode_liquid_p001 @ footer_p001) = 1"
  unfolding p001_defs by (simp only: occ_evals)

lemma occ_footer_liquid_p001:
  "occurrences footer_p001 (header_p001 @ loopCode_liquid_p001 @ footer_p001) = 1"
  unfolding p001_defs by (simp only: occ_evals)

lemma occ_foreign_liquid_p001:
  "occurrences loopCode_rocaille_p001 (header_p001 @ loopCode_liquid_p001 @ footer_p001) = 0 \<and>
   occurrences loopCode_electric_p001 (header_p001 @ loopCode_liquid_p001 @ footer_p001) = 0 \<and>
   occurrences loopCode_kaleidoscope_p001 (header_p001 @ loopCode_liquid_p001 @ footer_p001) = 0 \<and>
   occurrences loopCode_alien_p001 (header_p001 @ loopCode_liquid_p001 @ footer_p001) = 0"
  unfolding p001_defs by (simp only: occ_evals)

lemma occ_header_electric_p001:
  "occurrences header_p001 (header_p001 @ loopCode_electric_p001 @ footer_p001) = 1"
  unfolding p001_defs by (simp only: occ_evals)

lemma occ_footer_electric_p001:
  "occurrences footer_p001 (header_p001 @ loopCode_electric_p001 @ footer_p001) = 1"
  unfolding p001_defs by (simp only: occ_evals)

lemma occ_foreign_electric_p001:
  "occurrences loopCode_rocaille_p001 (header_p001 @ loopCode_electric_p001 @ footer_p001) = 0 \<and>
   occurrences loopCode_liquid_p001 (header_p001 @ loopCode_electric_p001 @ footer_p001) = 0 \<and>
   occurrences loopCode_kaleidoscope_p001 (header_p001 @ loopCode_electric_p001 @ footer_p001) = 0 \<and>
   occurrences loopCode_alien_p001 (header_p001 @ loopCode_electric_p001 @ footer_p001) = 0"
  unfolding p001_defs by (simp only: occ_evals)

lemma occ_header_kaleidoscope_p001:
  "occurrences header_p001 (header_p001 @ loopCode_kaleidoscope_p001 @ footer_p001) = 1"
  unfolding p001_defs by (simp only: occ_evals)

lemma occ_footer_kaleidoscope_p001:
  "occurrences footer_p001 (header_p001 @ loopCode_kaleidoscope_p001 @ footer_p001) = 1"
  unfolding p001_defs by (simp only: occ_evals)

lemma occ_foreign_kaleidoscope_p001:
  "occurrences loopCode_rocaille_p001 (header_p001 @ loopCode_kaleidoscope_p001 @ footer_p001) = 0 \<and>
   occurrences loopCode_liquid_p001 (header_p001 @ loopCode_kaleidoscope_p001 @ footer_p001) = 0 \<and>
   occurrences loopCode_electric_p001 (header_p001 @ loopCode_kaleidoscope_p001 @ footer_p001) = 0 \<and>
   occurrences loopCode_alien_p001 (header_p001 @ loopCode_kaleidoscope_p001 @ footer_p001) = 0"
  unfolding p001_defs by (simp only: occ_evals)

lemma occ_header_alien_p001:
  "occurrences header_p001 (header_p001 @ loopCode_alien_p001 @ footer_p001) = 1"
  unfolding p001_defs by (simp only: occ_evals)

lemma occ_footer_alien_p001:
  "occurrences footer_p001 (header_p001 @ loopCode_alien_p001 @ footer_p001) = 1"
  unfolding p001_defs by (simp only: occ_evals)

lemma occ_foreign_alien_p001:
  "occurrences loopCode_rocaille_p001 (header_p001 @ loopCode_alien_p001 @ footer_p001) = 0 \<and>
   occurrences loopCode_liquid_p001 (header_p001 @ loopCode_alien_p001 @ footer_p001) = 0 \<and>
   occurrences loopCode_electric_p001 (header_p001 @ loopCode_alien_p001 @ footer_p001) = 0 \<and>
   occurrences loopCode_kaleidoscope_p001 (header_p001 @ loopCode_alien_p001 @ footer_p001) = 0"
  unfolding p001_defs by (simp only: occ_evals)

lemma occ_header_rocaille_sjs:
  "occurrences header_sjs (header_sjs @ loopCode_rocaille_sjs @ footer_sjs) = 1"
  unfolding sjs_defs by (simp only: occ_evals)

lemma occ_footer_rocaille_sjs:
  "occurrences footer_sjs (header_sjs @ loopCode_rocaille_sjs @ footer_sjs) = 1"
  unfolding sjs_defs by (simp only: occ_evals)

lemma occ_foreign_rocaille_sjs:
  "occurrences loopCode_liquid_sjs (header_sjs @ loopCode_rocaille_sjs @ footer_sjs) = 0 \<and>
   occurrences loopCode_electric_sjs (header_sjs @ loopCode_rocaille_sjs @ footer_sjs) = 0 \<and>
   occurrences loopCode_kaleidoscope_sjs (header_sjs @ loopCode_rocaille_sjs @ footer_sjs) = 0 \<and>
   occurrences loopCode_alien_sjs (header_sjs @ loopCode_rocaille_sjs @ footer_sjs) = 0"
  unfolding sjs_defs by (simp only: occ_evals)

lemma occ_header_liquid_sjs:
  "occurrences header_sjs (header_sjs @ loopCode_liquid_sjs @ footer_sjs) = 1"
  unfolding sjs_defs by (simp only: occ_evals)

lemma occ_footer_liquid_sjs:
  "occurrences footer_sjs (header_sjs @ loopCode_liquid_sjs @ footer_sjs) = 1"
  unfolding sjs_defs by (simp only: occ_evals)

lemma occ_foreign_liquid_sjs:
  "occurrences loopCode_rocaille_sjs (header_sjs @ loopCode_liquid_sjs @ footer_sjs) = 0 \<and>
   occurrences loopCode_electric_sjs (header_sjs @ loopCode_liquid_sjs @ footer_sjs) = 0 \<and>
   occurrences loopCode_kaleidoscope_sjs (header_sjs @ loopCode_liquid_sjs @ footer_sjs) = 0 \<and>
   occurrences loopCode_alien_sjs (header_sjs @ loopCode_liquid_sjs @ footer_sjs) = 0"
  unfolding sjs_defs by (simp only: occ_evals)

lemma occ_header_electric_sjs:
  "occurrences header_sjs (header_sjs @ loopCode_electric_sjs @ footer_sjs) = 1"
  unfolding sjs_defs by (simp only: occ_evals)

lemma occ_footer_electric_sjs:
  "occurrences footer_sjs (header_sjs @ loopCode_electric_sjs @ footer_sjs) = 1"
  unfolding sjs_defs by (simp only: occ_evals)

lemma occ_foreign_electric_sjs:
  "occurrences loopCode_rocaille_sjs (header_sjs @ loopCode_electric_sjs @ footer_sjs) = 0 \<and>
   occurrences loopCode_liquid_sjs (header_sjs @ loopCode_electric_sjs @ footer_sjs) = 0 \<and>
   occurrences loopCode_kaleidoscope_sjs (header_sjs @ loopCode_electric_sjs @ footer_sjs) = 0 \<and>
   occurrences loopCode_alien_sjs (header_sjs @ loopCode_electric_sjs @ footer_sjs) = 0"
  unfolding sjs_defs by (simp only: occ_evals)

lemma occ_header_kaleidoscope_sjs:
  "occurrences header_sjs (header_sjs @ loopCode_kaleidoscope_sjs @ footer_sjs) = 1"
  unfolding sjs_defs by (simp only: occ_evals)

lemma occ_footer_kaleidoscope_sjs:
  "occurrences footer_sjs (header_sjs @ loopCode_kaleidoscope_sjs @ footer_sjs) = 1"
  unfolding sjs_defs by (simp only: occ_evals)

lemma occ_foreign_kaleidoscope_sjs:
  "occurrences loopCode_rocaille_sjs (header_sjs @ loopCode_kaleidoscope_sjs @ footer_sjs) = 0 \<and>
   occurrences loopCode_liquid_sjs (header_sjs @ loopCode_kaleidoscope_sjs @ footer_sjs) = 0 \<and>
   occurrences loopCode_electric_sjs (header_sjs @ loopCode_kaleidoscope_sjs @ footer_sjs) = 0 \<and>
   occurrences loopCode_alien_sjs (header_sjs @ loopCode_kaleidoscope_sjs @ footer_sjs) = 0"
  unfolding sjs_defs by (simp only: occ_evals)

lemma occ_header_alien_sjs:
  "occurrences header_sjs (header_sjs @ loopCode_alien_sjs @ footer_sjs) = 1"
  unfolding sjs_defs by (simp only: occ_evals)

lemma occ_footer_alien_sjs:
  "occurrences footer_sjs (header_sjs @ loopCode_alien_sjs @ footer_sjs) = 1"
  unfolding sjs_defs by (simp only: occ_evals)

lemma occ_foreign_alien_sjs:
  "occurrences loopCode_rocaille_sjs (header_sjs @ loopCode_alien_sjs @ footer_sjs) = 0 \<and>
   occurrences loopCode_liquid_sjs (header_sjs @ loopCode_alien_sjs @ footer_sjs) = 0 \<and>
   occurrences loopCode_electric_sjs (header_sjs @ loopCode_alien_sjs @ footer_sjs) = 0 \<and>
   occurrences loopCode_kaleidoscope_sjs (header_sjs @ loopCode_alien_sjs @ footer_sjs) = 0"
  unfolding sjs_defs by (simp only: occ_evals)

lemma templates_cleanly_p001:
  "templates_cleanly generateFragmentShader_p001 header_p001 footer_p001 variant_bodies_p001"
  unfolding templates_cleanly_def variant_bodies_p001_def
  by (simp add: gen_rocaille_p001 occ_header_rocaille_p001 occ_footer_rocaille_p001 occ_foreign_rocaille_p001 gen_liquid_p001 occ_header_liquid_p001 occ_footer_liquid_p001 occ_foreign_liquid_p001 gen_electric_p001 occ_header_electric_p001 occ_footer_electric_p001 occ_foreign_electric_p001 gen_kaleidoscope_p001 occ_header_kaleidoscope_p001 occ_footer_kaleidoscope_p001 occ_foreign_kaleidoscope_p001 gen_alien_p001 occ_header_alien_p001 occ_footer_alien_p001 occ_foreign_alien_p001)

lemma templates_cleanly_sjs:
  "templates_cleanly generateFragmentShader_sjs header_sjs footer_sjs variant_bodies_sjs"
  unfolding templates_cleanly_def variant_bodies_sjs_def
  by (simp add: gen_rocaille_sjs occ_header_rocaille_sjs occ_footer_rocaille_sjs occ_foreign_rocaille_sjs gen_liquid_sjs occ_header_liquid_sjs occ_footer_liquid_sjs occ_foreign_liquid_sjs gen_electric_sjs occ_header_electric_sjs occ_footer_electric_sjs occ_foreign_electric_sjs gen_kaleidoscope_sjs occ_header_kaleidoscope_sjs occ_footer_kaleidoscope_sjs occ_foreign_kaleidoscope_sjs gen_alien_sjs occ_header_alien_sjs occ_footer_alien_sjs occ_foreign_alien_sjs)

lemma templates_cleanly_p000:
  "templates_cleanly generateFragmentShader_p000 header_p000 footer_p000 variant_bodies_p000"
proof -
  have "generateFragmentShader_p000 = generateFragmentShader_p001"
    by (rule ext) (rule templaters_agree)
  then show ?thesis
    using templates_cleanly_p001
    by (simp add: header_p000_p001 footer_p000_p001 variant_bodies_p000_p001)
qed
subsection \<open>Every output ends with the footer of its own file\<close>

lemma suffix_same_length: "suffix a c \<Longrightarrow> suffix b c \<Longrightarrow> length a = length b \<Longrightarrow> a = b"
  by (auto simp: suffix_def)

lemma sjs_output_end: "suffix ''l);\<newline>}\<newline>'' (generateFragmentShader_sjs v)"
proof -
  have "suffix ''l);\<newline>}\<newline>'' footer_sjs"
    by (simp add: footer_sjs_def suffix_to_prefix)
  then show ?thesis
    unfolding generateFragmentShader_sjs_def by (intro suffix_appendI)
qed

lemma p001_output_end: "suffix ''0);\<newline>}\<newline>'' (generateFragmentShader_p001 v)"
proof -
  have "suffix ''0);\<newline>}\<newline>'' footer_p001"
    by (simp add: footer_p001_def suffix_to_prefix)
  then show ?thesis
    unfolding generateFragmentShader_p001_def by (intro suffix_appendI)
qed

lemma sjs_differs: "generateFragmentShader_sjs v \<noteq> generateFragmentShader_p001 v"
proof
  assume eq: "generateFragmentShader_sjs v = generateFragmentShader_p001 v"
  have "''l);\<newline>}\<newline>'' = ''0);\<newline>}\<newline>''"
    using sjs_output_end [of v] p001_output_end [of v] unfolding eq
    by (rule suffix_same_length) simp
  then show False by simp
qed

subsection \<open>The claims about the templater\<close>

text \<open>
  C2. For each of the five variation tags \<open>rocaille\<close>, \<open>liquid\<close>, \<open>electric\<close>,
  \<open>kaleidoscope\<close> and \<open>alien\<close>, the templater returns exactly the shared header, then the
  body of that tag, then the shared footer. The output therefore holds the header once and
  the footer once, it holds the body of its tag, and the body of no other tag occurs in
  it. This is so in each of the three files, whose tables list exactly the five tags.
\<close>

theorem templater_known_tags:
  "templates_cleanly generateFragmentShader_p001 header_p001 footer_p001 variant_bodies_p001 \<and>
   templates_cleanly generateFragmentShader_p000 header_p000 footer_p000 variant_bodies_p000 \<and>
   templates_cleanly generateFragmentShader_sjs header_sjs footer_sjs variant_bodies_sjs \<and>
   map fst variant_bodies_p001 = known_variations \<and>
   map fst variant_bodies_p000 = known_variations \<and>
   map fst variant_bodies_sjs = known_variations"
proof -
  have tags:
    "map fst variant_bodies_p001 = known_variations"
    "map fst variant_bodies_p000 = known_variations"
    "map fst variant_bodies_sjs = known_variations"
    by (simp_all add: variant_bodies_p001_def variant_bodies_p000_def variant_bodies_sjs_def
        known_variations_def)
  show ?thesis
    using templates_cleanly_p001 templates_cleanly_p000 templates_cleanly_sjs tags
    by (intro conjI)
qed

theorem templater_known_tags_witness:
  "(''electric'', loopCode_electric_p001) \<in> set variant_bodies_p001 \<and>
   (''liquid'', loopCode_liquid_p001) \<in> set variant_bodies_p001 \<and>
   ''liquid'' \<noteq> ''electric'' \<and>
   generateFragmentShader_p001 ''electric'' = header_p001 @ loopCode_electric_p001 @ footer_p001 \<and>
   occurrences header_p001 (generateFragmentShader_p001 ''electric'') = 1 \<and>
   occurrences footer_p001 (generateFragmentShader_p001 ''electric'') = 1 \<and>
   sublist loopCode_electric_p001 (generateFragmentShader_p001 ''electric'') \<and>
   occurrences loopCode_liquid_p001 (generateFragmentShader_p001 ''electric'') = 0"
proof -
  have electric: "(''electric'', loopCode_electric_p001) \<in> set variant_bodies_p001"
    by (simp add: variant_bodies_p001_def)
  have liquid: "(''liquid'', loopCode_liquid_p001) \<in> set variant_bodies_p001"
    by (simp add: variant_bodies_p001_def)
  have other: "''liquid'' \<noteq> ''electric''"
    by simp
  have clean:
    "templates_cleanly generateFragmentShader_p001 header_p001 footer_p001 variant_bodies_p001"
    using templater_known_tags by (rule conjunct1)
  show ?thesis
    using clean electric liquid other unfolding templates_cleanly_def by fastforce
qed

text \<open>
  C3. For every string that is not one of the five tags the templater does not fail: it
  returns the shared header followed directly by the shared footer, the body being empty.
  This is so in each of the three files.
\<close>

theorem templater_unknown_tag:
  "v \<notin> set known_variations \<Longrightarrow>
   generateFragmentShader_p001 v = header_p001 @ footer_p001 \<and>
   generateFragmentShader_p000 v = header_p000 @ footer_p000 \<and>
   generateFragmentShader_sjs v = header_sjs @ footer_sjs"
  by (simp add: known_variations_def generateFragmentShader_p001_def loopCode_p001_def
      generateFragmentShader_p000_def loopCode_p000_def generateFragmentShader_sjs_def
      loopCode_sjs_def)

theorem templater_unknown_tag_witness:
  "''plasma'' \<notin> set known_variations \<and>
   generateFragmentShader_p001 ''plasma'' = header_p001 @ footer_p001 \<and>
   generateFragmentShader_p000 ''plasma'' = header_p000 @ footer_p000 \<and>
   generateFragmentShader_sjs ''plasma'' = header_sjs @ footer_sjs"
proof -
  have unknown: "''plasma'' \<notin> set known_variations"
    by (simp add: known_variations_def)
  show ?thesis
    using unknown templater_unknown_tag [OF unknown] by simp
qed

text \<open>
  C10. The templaters of the two unnamed files are extensionally equal: for every input
  string, known tag or not, they return the same source text. The templater of shader.js
  is a different function: its footer writes \<open>tanh(col * col)\<close> to \<open>fragColor\<close> directly, so
  its output differs from theirs on every input.
\<close>

theorem unnamed_templaters_equal:
  "generateFragmentShader_p000 v = generateFragmentShader_p001 v \<and>
   generateFragmentShader_sjs v \<noteq> generateFragmentShader_p001 v"
  by (simp add: templaters_agree sjs_differs)

section \<open>Properties of the number model\<close>

lemmas num_eval = js_div_def js_mul_def js_sub_def to_double_def exponent_def expo_up.simps
  expo_down.simps round_even_def overflow_threshold_def zero_of_def infinity_of_def Let_def

subsection \<open>The exponent brackets its argument\<close>

lemma expo_up_bounds:
  "1 \<le> a \<Longrightarrow> a < 2 ^ Suc n \<Longrightarrow> 2 powi (expo_up n a) \<le> a \<and> a < 2 powi (expo_up n a + 1)"
proof (induction n arbitrary: a)
  case 0
  then show ?case by (simp add: expo_up.simps)
next
  case (Suc n)
  show ?case
  proof (cases "a < 2")
    case True
    then show ?thesis using Suc.prems by (simp add: expo_up.simps)
  next
    case False
    have step: "expo_up (Suc n) a = 1 + expo_up n (a / 2)"
      using False by (subst expo_up.simps) simp
    have "1 \<le> a / 2" and "a / 2 < 2 ^ Suc n"
      using False Suc.prems by simp_all
    then have ih: "2 powi (expo_up n (a / 2)) \<le> a / 2"
      "a / 2 < 2 powi (expo_up n (a / 2) + 1)"
      using Suc.IH by blast+
    have up: "(2::real) powi (i + 1) = 2 powi i * 2" for i :: int
      using power_int_add_1 [of "2::real" i] by simp
    have "(2::real) powi (1 + expo_up n (a / 2)) = 2 powi (expo_up n (a / 2)) * 2"
      using up [of "expo_up n (a / 2)"] by (simp add: add.commute)
    moreover have "(2::real) powi (1 + expo_up n (a / 2) + 1) =
        2 powi (expo_up n (a / 2) + 1) * 2"
      using up [of "expo_up n (a / 2) + 1"] by (simp add: add.commute add.left_commute)
    ultimately show ?thesis
      unfolding step using ih by linarith
  qed
qed

lemma expo_down_bounds:
  "0 < a \<Longrightarrow> a < 1 \<Longrightarrow> 1 / 2 ^ n \<le> a \<Longrightarrow>
   2 powi (expo_down n a) \<le> a \<and> a < 2 powi (expo_down n a + 1)"
proof (induction n arbitrary: a)
  case 0
  then show ?case by simp
next
  case (Suc n)
  have step: "expo_down (Suc n) a = expo_down n (a * 2) - 1"
    using Suc.prems by (subst expo_down.simps) simp
  show ?case
  proof (cases "1 \<le> a * 2")
    case True
    then have "expo_down n (a * 2) = 0"
      by (subst expo_down.simps) simp
    then show ?thesis
      unfolding step using True Suc.prems by (simp add: power_int_minus field_simps)
  next
    case False
    have "0 < a * 2" and "a * 2 < 1" and "1 / 2 ^ n \<le> a * 2"
      using False Suc.prems by (simp_all add: field_simps)
    then have ih: "2 powi (expo_down n (a * 2)) \<le> a * 2"
      "a * 2 < 2 powi (expo_down n (a * 2) + 1)"
      using Suc.IH by blast+
    have "(2::real) powi (expo_down n (a * 2) - 1) = 2 powi (expo_down n (a * 2)) / 2"
      using power_int_diff [of "2::real" "expo_down n (a * 2)" 1] by simp
    moreover have "(2::real) powi (expo_down n (a * 2) + 1) = 2 powi (expo_down n (a * 2)) * 2"
      using power_int_add_1 [of "2::real" "expo_down n (a * 2)"] by simp
    moreover have "expo_down n (a * 2) - 1 + 1 = expo_down n (a * 2)"
      by simp
    ultimately show ?thesis
      unfolding step using ih by (simp only:) linarith
  qed
qed

lemma exponent_bounds:
  assumes "1 / 2 ^ 1022 \<le> a" and "a < 2 ^ 1024"
  shows "2 powi (exponent a) \<le> a" and "a < 2 powi (exponent a + 1)"
proof -
  have "2 powi (exponent a) \<le> a \<and> a < 2 powi (exponent a + 1)"
  proof (cases "1 \<le> a")
    case True
    then show ?thesis
      using expo_up_bounds [of a 1023] assms(2) by (simp add: exponent_def)
  next
    case False
    have "0 < a"
      using assms(1) by (rule less_le_trans [rotated]) simp
    then show ?thesis
      using expo_down_bounds [of a 1022] assms(1) False by (simp add: exponent_def)
  qed
  then show "2 powi (exponent a) \<le> a" and "a < 2 powi (exponent a + 1)"
    by blast+
qed

subsection \<open>Rounding moves a number by at most half a unit in the last place\<close>

lemma round_even_error: "\<bar>of_int (round_even x) - x\<bar> \<le> 1 / 2"
  unfolding round_even_def Let_def by (auto simp: abs_le_iff)

lemma round_even_lower: "of_int \<lfloor>x\<rfloor> \<le> (of_int (round_even x) :: real)"
  unfolding round_even_def Let_def by auto

lemma to_double_error:
  assumes "1 / 2 ^ 1022 \<le> \<bar>x\<bar>" and "\<bar>x\<bar> < overflow_threshold"
  shows "\<exists>y. to_double x = Num y \<and> \<bar>y - x\<bar> \<le> \<bar>x\<bar> / 2 ^ 53 \<and> (0 < x \<longleftrightarrow> 0 < y)"
proof -
  define a where "a = \<bar>x\<bar>"
  define e where "e = exponent a"
  define u :: real where "u = 2 powi (e - 52)"
  define m where "m = round_even (a / u)"
  have a_pos: "0 < a"
    using assms(1) unfolding a_def by (rule less_le_trans [rotated]) simp
  have small: "a < 2 ^ 1024"
    using assms(2) unfolding a_def overflow_threshold_def by simp
  have lo: "2 powi e \<le> a" and hi: "a < 2 powi (e + 1)"
    unfolding e_def using exponent_bounds [OF _ small] assms(1) unfolding a_def by blast+
  have u_pos: "0 < u"
    unfolding u_def by simp
  have u_eq: "u * 2 ^ 52 = 2 powi e"
    unfolding u_def using power_int_diff [of "2::real" e 52] by simp
  have big: "2 ^ 52 \<le> a / u"
    using lo u_pos u_eq by (simp add: field_simps)
  have "(2::real) ^ 52 = of_int (2 ^ 52)"
    by simp
  also have "\<dots> \<le> of_int \<lfloor>a / u\<rfloor>"
    using big by (intro of_int_le_iff [THEN iffD2] le_floor_iff [THEN iffD2]) simp
  also have "\<dots> \<le> of_int m"
    unfolding m_def by (rule round_even_lower)
  finally have m_big: "(2::real) ^ 52 \<le> of_int m" .
  then have m_pos: "0 < (of_int m :: real)"
    by (rule less_le_trans [rotated]) simp
  have y_pos: "0 < of_int m * u"
    using m_pos u_pos by simp
  have "of_int m * u - a = (of_int m - a / u) * u"
    using u_pos by (simp add: field_simps)
  then have "\<bar>of_int m * u - a\<bar> = \<bar>of_int m - a / u\<bar> * u"
    using u_pos by (simp add: abs_mult)
  also have "\<dots> \<le> 1 / 2 * u"
    unfolding m_def using round_even_error [of "a / u"] u_pos
    by (intro mult_right_mono) simp_all
  also have "\<dots> = 2 powi e / 2 ^ 53"
    using u_eq by (simp add: field_simps)
  also have "\<dots> \<le> a / 2 ^ 53"
    using lo by (simp add: divide_right_mono)
  finally have err: "\<bar>of_int m * u - a\<bar> \<le> a / 2 ^ 53" .
  have nz: "a \<noteq> 0" and no: "\<not> overflow_threshold \<le> a"
    using a_pos assms(2) unfolding a_def by simp_all
  show ?thesis
  proof (cases "0 < x")
    case True
    then have "to_double x = Num (of_int m * u)"
      using nz no y_pos
      unfolding to_double_def Let_def a_def [symmetric] e_def [symmetric] u_def [symmetric]
        m_def [symmetric]
      by simp
    moreover have "a = x"
      using True unfolding a_def by simp
    ultimately show ?thesis
      using err y_pos True by (intro exI [of _ "of_int m * u"]) simp
  next
    case False
    then have neg: "x < 0"
      using nz unfolding a_def by simp
    have "m \<noteq> 0" and "u \<noteq> 0"
      using m_pos u_pos by auto
    then have "to_double x = Num (- (of_int m * u))"
      using nz no neg
      unfolding to_double_def Let_def a_def [symmetric] e_def [symmetric] u_def [symmetric]
        m_def [symmetric]
      by simp
    moreover have "a = - x"
      using neg unfolding a_def by simp
    ultimately show ?thesis
      using err y_pos neg by (intro exI [of _ "- (of_int m * u)"]) (simp add: abs_minus_commute)
  qed
qed

section \<open>Properties of the export controllers and the drivers\<close>

subsection \<open>The timer loop of unnamed/part\_001\<close>

lemma write_uniforms_cong:
  "uniforms s' = uniforms s \<Longrightarrow> params s' = params s \<Longrightarrow> canvas_width s' = canvas_width s \<Longrightarrow>
   canvas_height s' = canvas_height s \<Longrightarrow> write_uniforms s' t = write_uniforms s t"
  by (simp add: write_uniforms_def)

lemma captureFrames_stop:
  "js_ge (Num (real (currentFrame s))) (exportFrameCount s) \<Longrightarrow>
   captureFrames s = emit [RecorderStop] s"
  by (simp add: captureFrames_def)

lemma captureFrames_draw:
  assumes "\<not> js_ge (Num (real (currentFrame s))) (exportFrameCount s)"
  shows "effects (captureFrames s) = effects s @ export_frame s (js_div (Num (real (currentFrame s))) (Num 60))"
    and "currentFrame (captureFrames s) = js_inc (currentFrame s)"
    and "exportFrameCount (captureFrames s) = exportFrameCount s"
    and "uniforms (captureFrames s) = uniforms s"
    and "params (captureFrames s) = params s"
    and "canvas_width (captureFrames s) = canvas_width s"
    and "canvas_height (captureFrames s) = canvas_height s"
  using assms by (simp_all add: captureFrames_def export_frame_def emit_def Let_def)

lemma rescheduled_draw:
  "\<not> js_ge (Num (real (currentFrame s))) (exportFrameCount s) \<Longrightarrow> rescheduled (captureFrames s)"
  by (simp add: rescheduled_def captureFrames_draw export_frame_def)

lemma rescheduled_stop:
  "js_ge (Num (real (currentFrame s))) (exportFrameCount s) \<Longrightarrow> \<not> rescheduled (captureFrames s)"
  by (simp add: rescheduled_def captureFrames_stop emit_def)

lemma js_ge_count: "js_ge (Num (real k)) (Num r) = (nat \<lceil>r\<rceil> \<le> k)"
  by (simp add: js_ge_def nat_le_iff ceiling_le_iff)

lemma run_timers_frames:
  assumes "exportFrameCount s = Num r" and "rescheduled s" and "m = nat \<lceil>r\<rceil> - currentFrame s"
    and "nat \<lceil>r\<rceil> \<le> 2 ^ 53"
  shows "\<exists>s'. run_timers (Suc m) s = Some s' \<and>
           effects s' = effects s @
             concat (map (\<lambda>k. export_frame s (js_div (Num (real k)) (Num 60))) [currentFrame s..<nat \<lceil>r\<rceil>]) @
             [RecorderStop] \<and>
           currentFrame s' = max (currentFrame s) (nat \<lceil>r\<rceil>)"
  using assms
proof (induction m arbitrary: s)
  case 0
  have ge: "nat \<lceil>r\<rceil> \<le> currentFrame s"
    using "0.prems"(3) by linarith
  have stop: "js_ge (Num (real (currentFrame s))) (exportFrameCount s)"
    unfolding "0.prems"(1) js_ge_count using ge .
  have "\<not> rescheduled (captureFrames s)"
    using stop by (rule rescheduled_stop)
  then have run: "run_timers (Suc 0) s = Some (captureFrames s)"
    using 0 by simp
  have eff: "effects (captureFrames s) = effects s @ [RecorderStop]"
    and cur: "currentFrame (captureFrames s) = currentFrame s"
    using stop by (simp_all add: captureFrames_stop emit_def)
  have mx: "max (currentFrame s) (nat \<lceil>r\<rceil>) = currentFrame s"
    using ge by (rule max_absorb1)
  have none: "[currentFrame s..<nat \<lceil>r\<rceil>] = []"
    using ge by simp
  show ?case
    unfolding mx none using run eff cur by simp
next
  case (Suc m)
  let ?next = "captureFrames s"
  have lt: "currentFrame s < nat \<lceil>r\<rceil>"
    using Suc.prems(3) by linarith
  have draw: "\<not> js_ge (Num (real (currentFrame s))) (exportFrameCount s)"
    unfolding Suc.prems(1) js_ge_count using lt by linarith
  have "currentFrame s < 2 ^ 53"
    using lt Suc.prems(4) by (rule less_le_trans)
  then have inc: "js_inc (currentFrame s) = Suc (currentFrame s)"
    by (simp add: js_inc_def)
  have "\<exists>s'. run_timers (Suc m) ?next = Some s' \<and>
           effects s' = effects ?next @
             concat (map (\<lambda>k. export_frame ?next (js_div (Num (real k)) (Num 60))) [currentFrame ?next..<nat \<lceil>r\<rceil>]) @
             [RecorderStop] \<and>
           currentFrame s' = max (currentFrame ?next) (nat \<lceil>r\<rceil>)"
  proof (rule Suc.IH)
    show "exportFrameCount ?next = Num r"
      using Suc.prems(1) by (simp add: captureFrames_draw(3) [OF draw])
    show "rescheduled ?next"
      using draw by (rule rescheduled_draw)
    show "m = nat \<lceil>r\<rceil> - currentFrame ?next"
      unfolding captureFrames_draw(2) [OF draw] inc using Suc.prems(3) by linarith
    show "nat \<lceil>r\<rceil> \<le> 2 ^ 53"
      by (rule Suc.prems(4))
  qed
  then obtain s' where run: "run_timers (Suc m) ?next = Some s'"
    and eff: "effects s' = effects ?next @
             concat (map (\<lambda>k. export_frame ?next (js_div (Num (real k)) (Num 60))) [currentFrame ?next..<nat \<lceil>r\<rceil>]) @
             [RecorderStop]"
    and cur: "currentFrame s' = max (currentFrame ?next) (nat \<lceil>r\<rceil>)"
    by blast
  have same: "export_frame ?next = export_frame s"
    by (rule ext)
      (simp add: export_frame_def write_uniforms_cong [OF captureFrames_draw(4,5,6,7) [OF draw]])
  have split: "[currentFrame s..<nat \<lceil>r\<rceil>] = currentFrame s # [Suc (currentFrame s)..<nat \<lceil>r\<rceil>]"
    using lt by (simp add: upt_conv_Cons)
  have "run_timers (Suc (Suc m)) s = Some s'"
    using run Suc.prems(2) by simp
  moreover have "effects s' = effects s @
             concat (map (\<lambda>k. export_frame s (js_div (Num (real k)) (Num 60))) [currentFrame s..<nat \<lceil>r\<rceil>]) @
             [RecorderStop]"
    unfolding eff same split captureFrames_draw(1,2) [OF draw] inc by simp
  moreover have "currentFrame s' = max (currentFrame s) (nat \<lceil>r\<rceil>)"
    unfolding cur captureFrames_draw(2) [OF draw] inc using lt by linarith
  ultimately show ?case by blast
qed


lemma startExport_call:
  "\<exists>s5. startExport br s = captureFrames s5 \<and>
     effects s5 = effects s @ [CaptureStream, RecorderStart] \<and>
     currentFrame s5 = 0 \<and>
     exportFrameCount s5 = Math_ceil (js_mul (getLoopDuration s) (Num 60)) \<and>
     uniforms s5 = uniforms s \<and> params s5 = params s \<and>
     canvas_width s5 = canvas_width s \<and> canvas_height s5 = canvas_height s"
  unfolding startExport_def Let_def
  by (rule exI, rule conjI, rule refl) (simp add: emit_def)

lemma export_session_frames:
  assumes "Math_ceil (js_mul (getLoopDuration s) (Num 60)) = Num r" and "nat \<lceil>r\<rceil> \<le> 2 ^ 53"
  shows "\<exists>s'. export_session (nat \<lceil>r\<rceil>) br s = Some s' \<and>
           effects s' = effects s @ [CaptureStream, RecorderStart] @
             concat (map (\<lambda>k. export_frame s (js_div (Num (real k)) (Num 60))) [0..<nat \<lceil>r\<rceil>]) @
             [RecorderStop]"
proof -
  obtain s5 where call: "startExport br s = captureFrames s5"
    and eff5: "effects s5 = effects s @ [CaptureStream, RecorderStart]"
    and cur5: "currentFrame s5 = 0"
    and cnt5: "exportFrameCount s5 = Num r"
    and same5: "uniforms s5 = uniforms s" "params s5 = params s"
      "canvas_width s5 = canvas_width s" "canvas_height s5 = canvas_height s"
    using startExport_call [of br s] assms(1) by auto
  have frame5: "export_frame s5 = export_frame s"
    by (rule ext) (simp add: export_frame_def write_uniforms_cong [OF same5])
  show ?thesis
  proof (cases "nat \<lceil>r\<rceil>")
    case 0
    have stop: "js_ge (Num (real (currentFrame s5))) (exportFrameCount s5)"
      unfolding cnt5 js_ge_count using 0 by simp
    have "\<not> rescheduled (startExport br s)"
      unfolding call using stop by (rule rescheduled_stop)
    then have "export_session 0 br s = Some (startExport br s)"
      by (simp add: export_session_def)
    moreover have "effects (startExport br s) = effects s @ [CaptureStream, RecorderStart, RecorderStop]"
      unfolding call captureFrames_stop [OF stop] by (simp add: emit_def eff5)
    ultimately show ?thesis
      using 0 by simp
  next
    case (Suc m)
    let ?next = "startExport br s"
    have draw: "\<not> js_ge (Num (real (currentFrame s5))) (exportFrameCount s5)"
      unfolding cnt5 js_ge_count using Suc cur5 by linarith
    have eff1: "effects ?next = effects s @ [CaptureStream, RecorderStart] @ export_frame s (js_div (Num (real 0)) (Num 60))"
      unfolding call captureFrames_draw(1) [OF draw] by (simp add: eff5 frame5 cur5)
    have cur1: "currentFrame ?next = Suc 0"
      unfolding call captureFrames_draw(2) [OF draw] by (simp add: cur5 js_inc_def)
    have cnt1: "exportFrameCount ?next = Num r"
      unfolding call captureFrames_draw(3) [OF draw] by (rule cnt5)
    have frame1: "export_frame ?next = export_frame s"
      unfolding call
      by (rule ext)
        (simp add: export_frame_def
          write_uniforms_cong [OF captureFrames_draw(4,5,6,7) [OF draw]]
          write_uniforms_cong [OF same5])
    have "\<exists>s'. run_timers (Suc m) ?next = Some s' \<and>
           effects s' = effects ?next @
             concat (map (\<lambda>k. export_frame ?next (js_div (Num (real k)) (Num 60))) [currentFrame ?next..<nat \<lceil>r\<rceil>]) @
             [RecorderStop] \<and>
           currentFrame s' = max (currentFrame ?next) (nat \<lceil>r\<rceil>)"
    proof (rule run_timers_frames)
      show "exportFrameCount ?next = Num r" by (rule cnt1)
      show "rescheduled ?next" unfolding call using draw by (rule rescheduled_draw)
      show "m = nat \<lceil>r\<rceil> - currentFrame ?next" unfolding cur1 Suc by simp
      show "nat \<lceil>r\<rceil> \<le> 2 ^ 53" by (rule assms(2))
    qed
    then obtain s' where run: "run_timers (Suc m) ?next = Some s'"
      and eff: "effects s' = effects ?next @
             concat (map (\<lambda>k. export_frame ?next (js_div (Num (real k)) (Num 60))) [currentFrame ?next..<nat \<lceil>r\<rceil>]) @
             [RecorderStop]"
      by blast
    have split: "[0..<Suc m] = 0 # [Suc 0..<Suc m]"
      by (simp add: upt_conv_Cons)
    have "export_session (nat \<lceil>r\<rceil>) br s = Some s'"
      unfolding Suc export_session_def by (rule run)
    moreover have "effects s' = effects s @ [CaptureStream, RecorderStart] @
             concat (map (\<lambda>k. export_frame s (js_div (Num (real k)) (Num 60))) [0..<nat \<lceil>r\<rceil>]) @
             [RecorderStop]"
      unfolding eff frame1 cur1 eff1 Suc split by simp
    ultimately show ?thesis by blast
  qed
qed

subsection \<open>The frame loop of unnamed/part\_000\<close>

lemma exportRender_stop:
  "js_ge (Num (real (currentFrame s))) (exportFrameCount s) \<Longrightarrow>
   exportRender s = finishExport_p000 s"
  by (simp add: exportRender_def finishExport_p000_def)

lemma exportRender_draw:
  assumes "\<not> js_ge (Num (real (currentFrame s))) (exportFrameCount s)"
  shows "effects (exportRender s) = effects s @ export_frame_p000 s (js_div (Num (real (currentFrame s))) (Num 60))"
    and "currentFrame (exportRender s) = js_inc (currentFrame s)"
    and "exportFrameCount (exportRender s) = exportFrameCount s"
    and "uniforms (exportRender s) = uniforms s"
    and "params (exportRender s) = params s"
    and "canvas_width (exportRender s) = canvas_width s"
    and "canvas_height (exportRender s) = canvas_height s"
  using assms by (simp_all add: exportRender_def finishExport_p000_def export_frame_p000_def emit_def Let_def)

lemma rescheduled_p000_draw:
  "\<not> js_ge (Num (real (currentFrame s))) (exportFrameCount s) \<Longrightarrow> rescheduled_p000 (exportRender s)"
  by (simp add: rescheduled_p000_def exportRender_draw export_frame_p000_def)

lemma rescheduled_p000_stop:
  "js_ge (Num (real (currentFrame s))) (exportFrameCount s) \<Longrightarrow> \<not> rescheduled_p000 (exportRender s)"
  by (simp add: rescheduled_p000_def exportRender_stop finishExport_p000_def emit_def)

lemma run_frames_p000_frames:
  assumes "exportFrameCount s = Num r" and "rescheduled_p000 s" and "m = nat \<lceil>r\<rceil> - currentFrame s"
    and "nat \<lceil>r\<rceil> \<le> 2 ^ 53"
  shows "\<exists>s'. run_frames_p000 (Suc m) s = Some s' \<and>
           effects s' = effects s @
             concat (map (\<lambda>k. export_frame_p000 s (js_div (Num (real k)) (Num 60))) [currentFrame s..<nat \<lceil>r\<rceil>]) @
             [CapturerStop, CapturerSave, SetTimeout FinishSavedCb (Num 500)] \<and>
           currentFrame s' = max (currentFrame s) (nat \<lceil>r\<rceil>)"
  using assms
proof (induction m arbitrary: s)
  case 0
  have ge: "nat \<lceil>r\<rceil> \<le> currentFrame s"
    using "0.prems"(3) by linarith
  have stop: "js_ge (Num (real (currentFrame s))) (exportFrameCount s)"
    unfolding "0.prems"(1) js_ge_count using ge .
  have "\<not> rescheduled_p000 (exportRender s)"
    using stop by (rule rescheduled_p000_stop)
  then have run: "run_frames_p000 (Suc 0) s = Some (exportRender s)"
    using 0 by simp
  have eff: "effects (exportRender s) = effects s @ [CapturerStop, CapturerSave, SetTimeout FinishSavedCb (Num 500)]"
    and cur: "currentFrame (exportRender s) = currentFrame s"
    using stop by (simp_all add: exportRender_stop finishExport_p000_def emit_def)
  have mx: "max (currentFrame s) (nat \<lceil>r\<rceil>) = currentFrame s"
    using ge by (rule max_absorb1)
  have none: "[currentFrame s..<nat \<lceil>r\<rceil>] = []"
    using ge by simp
  show ?case
    unfolding mx none using run eff cur by simp
next
  case (Suc m)
  let ?next = "exportRender s"
  have lt: "currentFrame s < nat \<lceil>r\<rceil>"
    using Suc.prems(3) by linarith
  have draw: "\<not> js_ge (Num (real (currentFrame s))) (exportFrameCount s)"
    unfolding Suc.prems(1) js_ge_count using lt by linarith
  have "currentFrame s < 2 ^ 53"
    using lt Suc.prems(4) by (rule less_le_trans)
  then have inc: "js_inc (currentFrame s) = Suc (currentFrame s)"
    by (simp add: js_inc_def)
  have "\<exists>s'. run_frames_p000 (Suc m) ?next = Some s' \<and>
           effects s' = effects ?next @
             concat (map (\<lambda>k. export_frame_p000 ?next (js_div (Num (real k)) (Num 60))) [currentFrame ?next..<nat \<lceil>r\<rceil>]) @
             [CapturerStop, CapturerSave, SetTimeout FinishSavedCb (Num 500)] \<and>
           currentFrame s' = max (currentFrame ?next) (nat \<lceil>r\<rceil>)"
  proof (rule Suc.IH)
    show "exportFrameCount ?next = Num r"
      using Suc.prems(1) by (simp add: exportRender_draw(3) [OF draw])
    show "rescheduled_p000 ?next"
      using draw by (rule rescheduled_p000_draw)
    show "m = nat \<lceil>r\<rceil> - currentFrame ?next"
      unfolding exportRender_draw(2) [OF draw] inc using Suc.prems(3) by linarith
    show "nat \<lceil>r\<rceil> \<le> 2 ^ 53"
      by (rule Suc.prems(4))
  qed
  then obtain s' where run: "run_frames_p000 (Suc m) ?next = Some s'"
    and eff: "effects s' = effects ?next @
             concat (map (\<lambda>k. export_frame_p000 ?next (js_div (Num (real k)) (Num 60))) [currentFrame ?next..<nat \<lceil>r\<rceil>]) @
             [CapturerStop, CapturerSave, SetTimeout FinishSavedCb (Num 500)]"
    and cur: "currentFrame s' = max (currentFrame ?next) (nat \<lceil>r\<rceil>)"
    by blast
  have same: "export_frame_p000 ?next = export_frame_p000 s"
    by (rule ext)
      (simp add: export_frame_p000_def write_uniforms_cong [OF exportRender_draw(4,5,6,7) [OF draw]])
  have split: "[currentFrame s..<nat \<lceil>r\<rceil>] = currentFrame s # [Suc (currentFrame s)..<nat \<lceil>r\<rceil>]"
    using lt by (simp add: upt_conv_Cons)
  have "run_frames_p000 (Suc (Suc m)) s = Some s'"
    using run Suc.prems(2) by simp
  moreover have "effects s' = effects s @
             concat (map (\<lambda>k. export_frame_p000 s (js_div (Num (real k)) (Num 60))) [currentFrame s..<nat \<lceil>r\<rceil>]) @
             [CapturerStop, CapturerSave, SetTimeout FinishSavedCb (Num 500)]"
    unfolding eff same split exportRender_draw(1,2) [OF draw] inc by simp
  moreover have "currentFrame s' = max (currentFrame s) (nat \<lceil>r\<rceil>)"
    unfolding cur exportRender_draw(2) [OF draw] inc using lt by linarith
  ultimately show ?case by blast
qed


lemma startExport_p000_call:
  "\<exists>s5. startExport_p000 d s = exportRender s5 \<and>
     effects s5 = effects s @ [CapturerStart] \<and>
     currentFrame s5 = 0 \<and>
     exportFrameCount s5 = Math_ceil (js_mul (getLoopDuration s) (Num 60)) \<and>
     uniforms s5 = uniforms s \<and> params s5 = params s \<and>
     canvas_width s5 = canvas_width s \<and> canvas_height s5 = canvas_height s"
  unfolding startExport_p000_def Let_def
  by (rule exI, rule conjI, rule refl) (simp add: emit_def)

lemma export_session_p000_frames:
  assumes "Math_ceil (js_mul (getLoopDuration s) (Num 60)) = Num r" and "nat \<lceil>r\<rceil> \<le> 2 ^ 53"
  shows "\<exists>s'. export_session_p000 (nat \<lceil>r\<rceil>) d s = Some s' \<and>
           effects s' = effects s @ [CapturerStart] @
             concat (map (\<lambda>k. export_frame_p000 s (js_div (Num (real k)) (Num 60))) [0..<nat \<lceil>r\<rceil>]) @
             [CapturerStop, CapturerSave, SetTimeout FinishSavedCb (Num 500)]"
proof -
  obtain s5 where call: "startExport_p000 d s = exportRender s5"
    and eff5: "effects s5 = effects s @ [CapturerStart]"
    and cur5: "currentFrame s5 = 0"
    and cnt5: "exportFrameCount s5 = Num r"
    and same5: "uniforms s5 = uniforms s" "params s5 = params s"
      "canvas_width s5 = canvas_width s" "canvas_height s5 = canvas_height s"
    using startExport_p000_call [of d s] assms(1) by auto
  have frame5: "export_frame_p000 s5 = export_frame_p000 s"
    by (rule ext) (simp add: export_frame_p000_def write_uniforms_cong [OF same5])
  show ?thesis
  proof (cases "nat \<lceil>r\<rceil>")
    case 0
    have stop: "js_ge (Num (real (currentFrame s5))) (exportFrameCount s5)"
      unfolding cnt5 js_ge_count using 0 by simp
    have "\<not> rescheduled_p000 (startExport_p000 d s)"
      unfolding call using stop by (rule rescheduled_p000_stop)
    then have "export_session_p000 0 d s = Some (startExport_p000 d s)"
      by (simp add: export_session_p000_def)
    moreover have "effects (startExport_p000 d s) = effects s @ [CapturerStart, CapturerStop, CapturerSave, SetTimeout FinishSavedCb (Num 500)]"
      unfolding call exportRender_stop [OF stop] by (simp add: finishExport_p000_def emit_def eff5)
    ultimately show ?thesis
      using 0 by simp
  next
    case (Suc m)
    let ?next = "startExport_p000 d s"
    have draw: "\<not> js_ge (Num (real (currentFrame s5))) (exportFrameCount s5)"
      unfolding cnt5 js_ge_count using Suc cur5 by linarith
    have eff1: "effects ?next = effects s @ [CapturerStart] @ export_frame_p000 s (js_div (Num (real 0)) (Num 60))"
      unfolding call exportRender_draw(1) [OF draw] by (simp add: eff5 frame5 cur5)
    have cur1: "currentFrame ?next = Suc 0"
      unfolding call exportRender_draw(2) [OF draw] by (simp add: cur5 js_inc_def)
    have cnt1: "exportFrameCount ?next = Num r"
      unfolding call exportRender_draw(3) [OF draw] by (rule cnt5)
    have frame1: "export_frame_p000 ?next = export_frame_p000 s"
      unfolding call
      by (rule ext)
        (simp add: export_frame_p000_def
          write_uniforms_cong [OF exportRender_draw(4,5,6,7) [OF draw]]
          write_uniforms_cong [OF same5])
    have "\<exists>s'. run_frames_p000 (Suc m) ?next = Some s' \<and>
           effects s' = effects ?next @
             concat (map (\<lambda>k. export_frame_p000 ?next (js_div (Num (real k)) (Num 60))) [currentFrame ?next..<nat \<lceil>r\<rceil>]) @
             [CapturerStop, CapturerSave, SetTimeout FinishSavedCb (Num 500)] \<and>
           currentFrame s' = max (currentFrame ?next) (nat \<lceil>r\<rceil>)"
    proof (rule run_frames_p000_frames)
      show "exportFrameCount ?next = Num r" by (rule cnt1)
      show "rescheduled_p000 ?next" unfolding call using draw by (rule rescheduled_p000_draw)
      show "m = nat \<lceil>r\<rceil> - currentFrame ?next" unfolding cur1 Suc by simp
      show "nat \<lceil>r\<rceil> \<le> 2 ^ 53" by (rule assms(2))
    qed
    then obtain s' where run: "run_frames_p000 (Suc m) ?next = Some s'"
      and eff: "effects s' = effects ?next @
             concat (map (\<lambda>k. export_frame_p000 ?next (js_div (Num (real k)) (Num 60))) [currentFrame ?next..<nat \<lceil>r\<rceil>]) @
             [CapturerStop, CapturerSave, SetTimeout FinishSavedCb (Num 500)]"
      by blast
    have split: "[0..<Suc m] = 0 # [Suc 0..<Suc m]"
      by (simp add: upt_conv_Cons)
    have "export_session_p000 (nat \<lceil>r\<rceil>) d s = Some s'"
      unfolding Suc export_session_p000_def by (rule run)
    moreover have "effects s' = effects s @ [CapturerStart] @
             concat (map (\<lambda>k. export_frame_p000 s (js_div (Num (real k)) (Num 60))) [0..<nat \<lceil>r\<rceil>]) @
             [CapturerStop, CapturerSave, SetTimeout FinishSavedCb (Num 500)]"
      unfolding eff frame1 cur1 eff1 Suc split by simp
    ultimately show ?thesis by blast
  qed
qed

subsection \<open>Bounds on \<open>\<pi>\<close> from Machin's formula\<close>

lemma arctan_partial_sums:
  fixes x :: real
  assumes "0 \<le> x" and "x \<le> 1"
  shows "(\<Sum>i<2 * n. (- 1) ^ i * (1 / real (i * 2 + 1) * x ^ (i * 2 + 1))) \<le> arctan x"
    and "arctan x \<le> (\<Sum>i<2 * n + 1. (- 1) ^ i * (1 / real (i * 2 + 1) * x ^ (i * 2 + 1)))"
proof -
  let ?a = "\<lambda>i. 1 / real (i * 2 + 1) * x ^ (i * 2 + 1)"
  have abs: "\<bar>x\<bar> \<le> 1"
    using assms by simp
  have zero: "?a \<longlonglongrightarrow> 0"
    using abs by (rule zeroseq_arctan_series)
  have pos: "0 \<le> ?a i" for i
    using assms by simp
  have mono: "?a (Suc i) \<le> ?a i" for i
  proof -
    have "x ^ (Suc i * 2 + 1) \<le> x ^ (i * 2 + 1)"
      using assms by (intro power_decreasing) simp_all
    moreover have "1 / real (Suc i * 2 + 1) \<le> 1 / real (i * 2 + 1)"
      by (intro divide_left_mono) simp_all
    moreover have "0 \<le> x ^ (Suc i * 2 + 1)" and "0 \<le> 1 / real (i * 2 + 1)"
      using assms by simp_all
    ultimately show ?thesis
      by (intro mult_mono) simp_all
  qed
  have series: "arctan x = (\<Sum>i. (- 1) ^ i * ?a i)"
    using abs by (rule arctan_series)
  show "(\<Sum>i<2 * n. (- 1) ^ i * ?a i) \<le> arctan x"
    unfolding series by (rule summable_Leibniz'(2) [of ?a, OF zero pos mono])
  show "arctan x \<le> (\<Sum>i<2 * n + 1. (- 1) ^ i * ?a i)"
    unfolding series by (rule summable_Leibniz'(4) [of ?a, OF zero pos mono])
qed

lemma pi_bounds: "3.14159 < pi" "pi < 3.1416"
proof -
  have sums: "{..<2 * (2::nat)} = {0, 1, 2, 3}" "{..<2 * (2::nat) + 1} = {0, 1, 2, 3, 4}"
    "{..<2 * (1::nat)} = {0, 1}" "{..<2 * (0::nat) + 1} = {0}"
    by auto
  have l5: "1 / 5 - 1 / 375 + 1 / 15625 - 1 / 546875 \<le> arctan (1 / 5 :: real)"
    using arctan_partial_sums(1) [of "1 / 5" 2] unfolding sums by (simp add: eval_nat_numeral)
  have u5: "arctan (1 / 5 :: real) \<le> 1 / 5 - 1 / 375 + 1 / 15625 - 1 / 546875 + 1 / 17578125"
    using arctan_partial_sums(2) [of "1 / 5" 2] unfolding sums by (simp add: eval_nat_numeral)
  have l239: "1 / 239 - 1 / 40955757 \<le> arctan (1 / 239 :: real)"
    using arctan_partial_sums(1) [of "1 / 239" 1] unfolding sums by (simp add: eval_nat_numeral)
  have u239: "arctan (1 / 239 :: real) \<le> 1 / 239"
    using arctan_partial_sums(2) [of "1 / 239" 0] unfolding sums by simp
  have machin': "pi = 16 * arctan (1 / 5) - 4 * arctan (1 / 239)"
    using machin by simp
  show "3.14159 < pi"
    unfolding machin' using l5 u239 by simp
  show "pi < 3.1416"
    unfolding machin' using u5 l239 by simp
qed

lemma to_double_near:
  assumes "1 \<le> x" and "x \<le> 1000"
  shows "\<exists>y. to_double x = Num y \<and> \<bar>y - x\<bar> \<le> 1 / 1000000 \<and> 0 < y"
proof -
  have "(1 / 2 ^ 1022 :: real) \<le> 1"
    by simp
  then have "1 / 2 ^ 1022 \<le> \<bar>x\<bar>"
    using assms(1) by linarith
  moreover have "(1000 :: real) < overflow_threshold"
    unfolding overflow_threshold_def by simp
  then have "\<bar>x\<bar> < overflow_threshold"
    using assms by linarith
  ultimately obtain y where y: "to_double x = Num y" "\<bar>y - x\<bar> \<le> \<bar>x\<bar> / 2 ^ 53"
    "0 < x \<longleftrightarrow> 0 < y"
    using to_double_error by blast
  have "\<bar>x\<bar> / 2 ^ 53 \<le> 1000 / 2 ^ 53"
    using assms by (intro divide_right_mono) simp_all
  also have "\<dots> \<le> (1 / 1000000 :: real)"
    by simp
  finally have "\<bar>y - x\<bar> \<le> 1 / 1000000"
    using y(2) by linarith
  moreover have "0 < y"
    using y(3) assms(1) by simp
  ultimately show ?thesis
    using y(1) by blast
qed

lemma rounded_frames:
  assumes "1 \<le> x" and "x \<le> 10"
  shows "\<exists>z. js_mul (to_double x) (Num 60) = Num z \<and> \<bar>z - x * 60\<bar> \<le> 1 / 10000 \<and> 0 < z"
proof -
  obtain y where y: "to_double x = Num y" "\<bar>y - x\<bar> \<le> 1 / 1000000" "0 < y"
    using to_double_near [of x] assms by auto
  have "1 \<le> y * 60" and "y * 60 \<le> 1000"
    using y(2) assms by linarith+
  then obtain z where z: "to_double (y * 60) = Num z" "\<bar>z - y * 60\<bar> \<le> 1 / 1000000" "0 < z"
    using to_double_near [of "y * 60"] by auto
  have "js_mul (to_double x) (Num 60) = Num z"
    unfolding y(1) using y(3) z(1) by (simp add: js_mul_def)
  moreover have "\<bar>z - x * 60\<bar> \<le> 1 / 10000"
    using y(2) z(2) by linarith
  ultimately show ?thesis
    using z(3) by blast
qed

lemma frames_with_pi:
  "Math_ceil (js_mul (js_div (Num (2 * pi)) (Num 1)) (Num 60)) = Num 377"
  "Math_ceil (js_mul (js_div (Num (2 * pi)) (Num 2)) (Num 60)) = Num 189"
proof -
  have lower: "314159 / 100000 < pi" and upper: "pi < 31416 / 10000"
    using pi_bounds by simp_all
  have div1: "js_div (Num (2 * pi)) (Num 1) = to_double (2 * pi)"
    and div2: "js_div (Num (2 * pi)) (Num 2) = to_double pi"
    by (simp_all add: js_div_def)
  show "Math_ceil (js_mul (js_div (Num (2 * pi)) (Num 1)) (Num 60)) = Num 377"
  proof -
    have "1 \<le> 2 * pi" and "2 * pi \<le> 10"
      using lower upper by linarith+
    then obtain z where z: "js_mul (to_double (2 * pi)) (Num 60) = Num z"
      "\<bar>z - 2 * pi * 60\<bar> \<le> 1 / 10000" "0 < z"
      using rounded_frames [of "2 * pi"] by auto
    have "376 < z" and "z \<le> 377"
      using z(2) lower upper by linarith+
    then have "\<lceil>z\<rceil> = 377"
      by (intro ceiling_unique) simp_all
    then show ?thesis
      unfolding div1 z(1) using z(3) by simp
  qed
  show "Math_ceil (js_mul (js_div (Num (2 * pi)) (Num 2)) (Num 60)) = Num 189"
  proof -
    have "1 \<le> pi" and "pi \<le> 10"
      using lower upper by linarith+
    then obtain z where z: "js_mul (to_double pi) (Num 60) = Num z"
      "\<bar>z - pi * 60\<bar> \<le> 1 / 10000" "0 < z"
      using rounded_frames [of pi] by auto
    have "188 < z" and "z \<le> 189"
      using z(2) lower upper by linarith+
    then have "\<lceil>z\<rceil> = 189"
      by (intro ceiling_unique) simp_all
    then show ?thesis
      unfolding div2 z(1) using z(3) by simp
  qed
qed

lemma Math_PI_near_pi: "\<bar>Math_PI - pi\<bar> < 1 / 100000"
proof -
  have lower: "314159 / 100000 < pi" and upper: "pi < 31416 / 10000"
    using pi_bounds by simp_all
  show ?thesis
    unfolding Math_PI_def using lower upper by linarith
qed

text \<open>The two counts do not depend on how the product is rounded: any number within
  \<open>1 / 200\<close> of \<open>2\<pi> \<times> 60\<close> has ceiling 377, any number within \<open>1 / 4\<close> of \<open>\<pi> \<times> 60\<close> has
  ceiling 189.\<close>

lemma frames_stable_under_rounding:
  "\<bar>x - 2 * pi * 60\<bar> < 1 / 200 \<Longrightarrow> Math_ceil (Num x) = Num 377"
  "\<bar>y - pi * 60\<bar> < 1 / 4 \<Longrightarrow> Math_ceil (Num y) = Num 189"
proof -
  have lower: "314159 / 100000 < pi" and upper: "pi < 31416 / 10000"
    using pi_bounds by simp_all
  show "Math_ceil (Num x) = Num 377" if "\<bar>x - 2 * pi * 60\<bar> < 1 / 200"
  proof -
    have "376 < x" and "x \<le> 377"
      using that lower upper by linarith+
    then have "\<lceil>x\<rceil> = 377"
      by (intro ceiling_unique) simp_all
    then show ?thesis by simp
  qed
  show "Math_ceil (Num y) = Num 189" if "\<bar>y - pi * 60\<bar> < 1 / 4"
  proof -
    have "188 < y" and "y \<le> 189"
      using that lower upper by linarith+
    then have "\<lceil>y\<rceil> = 189"
      by (intro ceiling_unique) simp_all
    then show ?thesis by simp
  qed
qed

subsection \<open>The frame count of an export\<close>

lemma captureFrames_count: "exportFrameCount (captureFrames s) = exportFrameCount s"
  by (simp add: captureFrames_def emit_def Let_def)

lemma exportRender_count: "exportFrameCount (exportRender s) = exportFrameCount s"
  by (simp add: exportRender_def finishExport_p000_def emit_def Let_def)

lemma startExport_count:
  "exportFrameCount (startExport br s) = Math_ceil (js_mul (getLoopDuration s) (Num 60))"
  by (simp add: startExport_def captureFrames_count emit_def Let_def)

lemma startExport_p000_count:
  "exportFrameCount (startExport_p000 d s) = Math_ceil (js_mul (getLoopDuration s) (Num 60))"
  by (simp add: startExport_p000_def exportRender_count emit_def Let_def)

lemma two_pi: "js_mul (Num 2) (Num Math_PI) = Num (2 * Math_PI)"
  by (simp add: num_eval Math_PI_def)

lemma loop_duration: "getLoopDuration s = js_div (Num (2 * Math_PI)) (speed (params s))"
  by (simp add: getLoopDuration_def two_pi)

lemma frames_at_speed:
  "Math_ceil (js_mul (js_div (Num (2 * Math_PI)) (Num 1)) (Num 60)) = Num 377"
  "Math_ceil (js_mul (js_div (Num (2 * Math_PI)) (Num 2)) (Num 60)) = Num 189"
  "Math_ceil (js_mul (js_div (Num (2 * Math_PI)) (Num 120)) (Num 60)) = Num 4"
  by (simp_all add: num_eval Math_PI_def)

text \<open>The count where the arithmetic of doubles shows: a speed of zero or of the least
  normal double gives \<open>Infinity\<close>, minus zero gives \<open>-Infinity\<close>, and at the speed
  376.99111843077515 the product rounds to exactly 1, so that one frame is counted.\<close>

lemma frames_at_extreme_speeds:
  "Math_ceil (js_mul (js_div (Num (2 * Math_PI)) (Num 0)) (Num 60)) = PosInfinity"
  "Math_ceil (js_mul (js_div (Num (2 * Math_PI)) NegZero) (Num 60)) = NegInfinity"
  "Math_ceil (js_mul (js_div (Num (2 * Math_PI)) (Num (1 / 2 ^ 1022))) (Num 60)) = PosInfinity"
  "Math_ceil (js_mul (js_div (Num (2 * Math_PI)) (Num (3316048946263331 / 8796093022208)))
     (Num 60)) = Num 1"
  by (simp_all add: num_eval Math_PI_def)

text \<open>The progress shown after frame 23 of 40: \<^verbatim>\<open>(23 / 40) * 100\<close> is the double
  57.49999999999999, which \<^verbatim>\<open>Math.round\<close> takes to 57, where the exact product 57.5 would
  give 58.\<close>

lemma progress_rounds_down:
  "js_mul (js_div (Num 23) (Num 40)) (Num 100) = Num (8092405580431359 / 140737488355328)"
  "Math_round (js_mul (js_div (Num 23) (Num 40)) (Num 100)) = Num 57"
  "Math_round (Num (23 / 40 * 100)) = Num 58"
  by (simp_all add: num_eval)

text \<open>
  C1, as the code has it. When an export starts, the frame count is the ceiling of the loop
  period times 60, the period being \<^verbatim>\<open>2 * Math.PI\<close> divided by the current speed. For
  speed 2.0 this is 189 frames. For speed 1.0 it is 377 frames, not 378:
  \<open>2\<pi> \<times> 60 = 376.99\<dots>\<close>. Both unnamed files compute the same count, and the same two
  numbers come out with \<open>\<pi>\<close> itself in place of the double \<^verbatim>\<open>Math.PI\<close>, which lies within
  \<open>10\<^sup>-\<^sup>5\<close> of it.
\<close>

theorem export_frame_count:
  "exportFrameCount (startExport br s) =
     Math_ceil (js_mul (js_div (Num (2 * Math_PI)) (speed (params s))) (Num 60)) \<and>
   exportFrameCount (startExport_p000 d s0) =
     Math_ceil (js_mul (js_div (Num (2 * Math_PI)) (speed (params s0))) (Num 60)) \<and>
   exportFrameCount (startExport br (s\<lparr>params := (params s)\<lparr>speed := Num 1\<rparr>\<rparr>)) = Num 377 \<and>
   exportFrameCount (startExport br (s\<lparr>params := (params s)\<lparr>speed := Num 2\<rparr>\<rparr>)) = Num 189 \<and>
   exportFrameCount (startExport_p000 d (s0\<lparr>params := (params s0)\<lparr>speed := Num 1\<rparr>\<rparr>)) = Num 377 \<and>
   exportFrameCount (startExport_p000 d (s0\<lparr>params := (params s0)\<lparr>speed := Num 2\<rparr>\<rparr>)) = Num 189 \<and>
   Math_ceil (js_mul (js_div (Num (2 * pi)) (Num 1)) (Num 60)) = Num 377 \<and>
   Math_ceil (js_mul (js_div (Num (2 * pi)) (Num 2)) (Num 60)) = Num 189 \<and>
   \<bar>Math_PI - pi\<bar> < 1 / 100000"
proof -
  have code:
    "exportFrameCount (startExport br s) =
       Math_ceil (js_mul (js_div (Num (2 * Math_PI)) (speed (params s))) (Num 60))"
    "exportFrameCount (startExport_p000 d s0) =
       Math_ceil (js_mul (js_div (Num (2 * Math_PI)) (speed (params s0))) (Num 60))"
    "exportFrameCount (startExport br (s\<lparr>params := (params s)\<lparr>speed := Num 1\<rparr>\<rparr>)) = Num 377"
    "exportFrameCount (startExport br (s\<lparr>params := (params s)\<lparr>speed := Num 2\<rparr>\<rparr>)) = Num 189"
    "exportFrameCount (startExport_p000 d (s0\<lparr>params := (params s0)\<lparr>speed := Num 1\<rparr>\<rparr>)) = Num 377"
    "exportFrameCount (startExport_p000 d (s0\<lparr>params := (params s0)\<lparr>speed := Num 2\<rparr>\<rparr>)) = Num 189"
    by (simp_all add: startExport_count startExport_p000_count loop_duration frames_at_speed)
  show ?thesis
    using code frames_with_pi Math_PI_near_pi by (intro conjI)
qed

text \<open>
  C1 as the specification states it fails: a playground as its constructor leaves it has
  speed 1.0, and an export started there does not count 378 frames.
\<close>

theorem export_frame_count_378_counterexample:
  "speed (params (construct_p001 0 300 150)) = Num 1 \<and>
   exportFrameCount (startExport plain_browser (construct_p001 0 300 150)) \<noteq> Num 378"
  by (simp add: startExport_count loop_duration construct_p001_def frames_at_speed)

subsection \<open>The times of the exported frames\<close>

lemma export_frame_time: "export_frame s t ! 3 = GL (Uniform1f (uniforms s ''iTime'') t)"
  by (simp add: export_frame_def write_uniforms_def)

lemma export_frame_p000_time: "export_frame_p000 s t ! 3 = GL (Uniform1f (uniforms s ''iTime'') t)"
  by (simp add: export_frame_p000_def write_uniforms_def)

lemma captureFrames_step:
  "\<not> js_ge (Num (real (currentFrame s))) (exportFrameCount s) \<Longrightarrow>
   new_effects s (captureFrames s) =
     export_frame s (js_div (Num (real (currentFrame s))) (Num 60))"
  by (simp add: new_effects_def captureFrames_draw(1))

lemma exportRender_step:
  "\<not> js_ge (Num (real (currentFrame s))) (exportFrameCount s) \<Longrightarrow>
   new_effects s (exportRender s) =
     export_frame_p000 s (js_div (Num (real (currentFrame s))) (Num 60))"
  by (simp add: new_effects_def exportRender_draw(1))

lemma captureFrames_mark:
  "captureFrames (s\<lparr>startTime := mark\<rparr>) = (captureFrames s)\<lparr>startTime := mark\<rparr>"
  by (simp add: captureFrames_def emit_def write_uniforms_def Let_def)

lemma exportRender_mark:
  "exportRender (s\<lparr>startTime := mark\<rparr>) = (exportRender s)\<lparr>startTime := mark\<rparr>"
  by (simp add: exportRender_def finishExport_p000_def emit_def write_uniforms_def Let_def)

text \<open>The time of frame 0 is zero, and the time of every later frame is the double nearest
  to \<open>k / 60\<close>: it is off by at most one part in \<open>2\<^sup>5\<^sup>3\<close>.\<close>

lemma frame_time_zero: "js_div (Num (real 0)) (Num 60) = Num 0"
  by (simp add: js_div_def zero_of_def)

lemma frame_time_nearest:
  assumes "0 < k" and "k \<le> 2 ^ 53"
  shows "\<exists>y. js_div (Num (real k)) (Num 60) = Num y \<and>
           \<bar>y - real k / 60\<bar> \<le> real k / 60 / 2 ^ 53"
proof -
  have "Suc 0 \<le> k"
    using assms(1) by simp
  then have "real (Suc 0) \<le> real k"
    by (rule of_nat_mono)
  then have k1: "1 \<le> real k"
    by simp
  have "real k \<le> real (2 ^ 53)"
    using assms(2) by (rule of_nat_mono)
  then have k2: "real k \<le> 2 ^ 53"
    by simp
  have "(1 / 2 ^ 1022 :: real) \<le> 1 / 60"
    by simp
  also have "\<dots> \<le> real k / 60"
    using k1 by simp
  finally have low: "1 / 2 ^ 1022 \<le> \<bar>real k / 60\<bar>"
    by simp
  have "real k / 60 \<le> 2 ^ 53 / 60"
    using k2 by simp
  also have "\<dots> < overflow_threshold"
    unfolding overflow_threshold_def by simp
  finally have high: "\<bar>real k / 60\<bar> < overflow_threshold"
    by simp
  obtain y where "to_double (real k / 60) = Num y"
    and "\<bar>y - real k / 60\<bar> \<le> \<bar>real k / 60\<bar> / 2 ^ 53"
    using to_double_error [OF low high] by blast
  moreover have "js_div (Num (real k)) (Num 60) = to_double (real k / 60)"
    using assms(1) by (simp add: js_div_def)
  ultimately show ?thesis
    by auto
qed

lemma export_session_mark:
  assumes "Math_ceil (js_mul (getLoopDuration s) (Num 60)) = Num r" and "nat \<lceil>r\<rceil> \<le> 2 ^ 53"
  shows "map_option effects (export_session (nat \<lceil>r\<rceil>) br (s\<lparr>startTime := mark\<rparr>)) =
         map_option effects (export_session (nat \<lceil>r\<rceil>) br s)"
proof -
  let ?moved = "s\<lparr>startTime := mark\<rparr>"
  have count: "Math_ceil (js_mul (getLoopDuration ?moved) (Num 60)) = Num r"
    using assms(1) by (simp add: getLoopDuration_def)
  have frame: "export_frame ?moved = export_frame s"
    by (rule ext) (simp add: export_frame_def write_uniforms_def)
  obtain a where a: "export_session (nat \<lceil>r\<rceil>) br ?moved = Some a"
    and ea: "effects a = effects ?moved @ [CaptureStream, RecorderStart] @
             concat (map (\<lambda>k. export_frame ?moved (js_div (Num (real k)) (Num 60)))
                       [0..<nat \<lceil>r\<rceil>]) @
             [RecorderStop]"
    using export_session_frames [OF count assms(2)] by blast
  obtain b where b: "export_session (nat \<lceil>r\<rceil>) br s = Some b"
    and eb: "effects b = effects s @ [CaptureStream, RecorderStart] @
             concat (map (\<lambda>k. export_frame s (js_div (Num (real k)) (Num 60)))
                       [0..<nat \<lceil>r\<rceil>]) @
             [RecorderStop]"
    using export_session_frames [OF assms] by blast
  show ?thesis
    unfolding a b by (simp add: ea eb frame)
qed

lemma export_session_p000_mark:
  assumes "Math_ceil (js_mul (getLoopDuration s) (Num 60)) = Num r" and "nat \<lceil>r\<rceil> \<le> 2 ^ 53"
  shows "map_option effects (export_session_p000 (nat \<lceil>r\<rceil>) d (s\<lparr>startTime := mark\<rparr>)) =
         map_option effects (export_session_p000 (nat \<lceil>r\<rceil>) d s)"
proof -
  let ?moved = "s\<lparr>startTime := mark\<rparr>"
  have count: "Math_ceil (js_mul (getLoopDuration ?moved) (Num 60)) = Num r"
    using assms(1) by (simp add: getLoopDuration_def)
  have frame: "export_frame_p000 ?moved = export_frame_p000 s"
    by (rule ext) (simp add: export_frame_p000_def write_uniforms_def)
  obtain a where a: "export_session_p000 (nat \<lceil>r\<rceil>) d ?moved = Some a"
    and ea: "effects a = effects ?moved @ [CapturerStart] @
             concat (map (\<lambda>k. export_frame_p000 ?moved (js_div (Num (real k)) (Num 60)))
                       [0..<nat \<lceil>r\<rceil>]) @
             [CapturerStop, CapturerSave, SetTimeout FinishSavedCb (Num 500)]"
    using export_session_p000_frames [OF count assms(2)] by blast
  obtain b where b: "export_session_p000 (nat \<lceil>r\<rceil>) d s = Some b"
    and eb: "effects b = effects s @ [CapturerStart] @
             concat (map (\<lambda>k. export_frame_p000 s (js_div (Num (real k)) (Num 60)))
                       [0..<nat \<lceil>r\<rceil>]) @
             [CapturerStop, CapturerSave, SetTimeout FinishSavedCb (Num 500)]"
    using export_session_p000_frames [OF assms] by blast
  show ?thesis
    unfolding a b by (simp add: ea eb frame)
qed

text \<open>A session whose frame count is \<open>Infinity\<close> or \<^verbatim>\<open>NaN\<close> (speed zero, a speed that
  overflows the period, a slider value that is not a number) draws frame after frame and
  never stops.\<close>

lemma endless_timers:
  assumes "exportFrameCount s = PosInfinity \<or> exportFrameCount s = NaN" and "rescheduled s"
  shows "run_timers fuel s = None"
  using assms
proof (induction fuel arbitrary: s)
  case 0
  then show ?case by simp
next
  case (Suc fuel)
  have draw: "\<not> js_ge (Num (real (currentFrame s))) (exportFrameCount s)"
    using Suc.prems(1) by (auto simp: js_ge_def)
  have "run_timers fuel (captureFrames s) = None"
    using Suc.prems(1) by (intro Suc.IH) (simp_all add: captureFrames_count rescheduled_draw [OF draw])
  then show ?case
    using Suc.prems(2) by simp
qed

lemma endless_session:
  assumes "Math_ceil (js_mul (getLoopDuration s) (Num 60)) = PosInfinity \<or>
           Math_ceil (js_mul (getLoopDuration s) (Num 60)) = NaN"
  shows "export_session fuel br s = None"
proof -
  obtain s5 where call: "startExport br s = captureFrames s5"
    and cur5: "currentFrame s5 = 0"
    and cnt5: "exportFrameCount s5 = Math_ceil (js_mul (getLoopDuration s) (Num 60))"
    using startExport_call [of br s] by auto
  have draw: "\<not> js_ge (Num (real (currentFrame s5))) (exportFrameCount s5)"
    unfolding cnt5 using assms by (auto simp: js_ge_def)
  have "run_timers fuel (captureFrames s5) = None"
    using assms by (intro endless_timers) (simp_all add: captureFrames_count cnt5 rescheduled_draw [OF draw])
  then show ?thesis
    by (simp add: export_session_def call)
qed

text \<open>
  C4, as the code has it. Whenever a frame is due, the export loop draws it with the time
  uniform set to the value of \<^verbatim>\<open>currentFrame / 60\<close> in the arithmetic of doubles (the fourth
  command of a frame writes \<open>iTime\<close>): zero for frame 0 and, for frame \<open>k > 0\<close>, the double
  nearest to \<open>k / 60\<close>, which is within one part in \<open>2\<^sup>5\<^sup>3\<close> of it. No clock is read:
  moving the start mark changes nothing but the start mark. A session whose frame count is
  a number \<open>r\<close> of at most \<open>2\<^sup>5\<^sup>3\<close> ends after the frames \<open>0, \<dots>, r - 1\<close>, each drawn with that
  time, whatever the start mark. This holds for the timer loop of unnamed/part\_001 and for
  the frame loop of unnamed/part\_000.
\<close>

theorem export_synthetic_time:
  "(\<not> js_ge (Num (real (currentFrame s))) (exportFrameCount s) \<longrightarrow>
      new_effects s (captureFrames s) =
        export_frame s (js_div (Num (real (currentFrame s))) (Num 60))) \<and>
   (\<not> js_ge (Num (real (currentFrame s0))) (exportFrameCount s0) \<longrightarrow>
      new_effects s0 (exportRender s0) =
        export_frame_p000 s0 (js_div (Num (real (currentFrame s0))) (Num 60))) \<and>
   captureFrames (s\<lparr>startTime := mark\<rparr>) = (captureFrames s)\<lparr>startTime := mark\<rparr> \<and>
   exportRender (s0\<lparr>startTime := mark\<rparr>) = (exportRender s0)\<lparr>startTime := mark\<rparr> \<and>
   export_frame s t ! 3 = GL (Uniform1f (uniforms s ''iTime'') t) \<and>
   export_frame_p000 s0 t ! 3 = GL (Uniform1f (uniforms s0 ''iTime'') t) \<and>
   js_div (Num (real 0)) (Num 60) = Num 0 \<and>
   (0 < k \<and> k \<le> 2 ^ 53 \<longrightarrow>
      (\<exists>y. js_div (Num (real k)) (Num 60) = Num y \<and>
            \<bar>y - real k / 60\<bar> \<le> real k / 60 / 2 ^ 53)) \<and>
   (Math_ceil (js_mul (getLoopDuration s) (Num 60)) = Num r \<and> nat \<lceil>r\<rceil> \<le> 2 ^ 53 \<longrightarrow>
      (\<exists>s'. export_session (nat \<lceil>r\<rceil>) br s = Some s' \<and>
         effects s' = effects s @ [CaptureStream, RecorderStart] @
           concat (map (\<lambda>k. export_frame s (js_div (Num (real k)) (Num 60)))
                     [0..<nat \<lceil>r\<rceil>]) @
           [RecorderStop]) \<and>
      map_option effects (export_session (nat \<lceil>r\<rceil>) br (s\<lparr>startTime := mark\<rparr>)) =
      map_option effects (export_session (nat \<lceil>r\<rceil>) br s)) \<and>
   (Math_ceil (js_mul (getLoopDuration s0) (Num 60)) = Num r0 \<and> nat \<lceil>r0\<rceil> \<le> 2 ^ 53 \<longrightarrow>
      (\<exists>s'. export_session_p000 (nat \<lceil>r0\<rceil>) d s0 = Some s' \<and>
         effects s' = effects s0 @ [CapturerStart] @
           concat (map (\<lambda>k. export_frame_p000 s0 (js_div (Num (real k)) (Num 60)))
                     [0..<nat \<lceil>r0\<rceil>]) @
           [CapturerStop, CapturerSave, SetTimeout FinishSavedCb (Num 500)]) \<and>
      map_option effects (export_session_p000 (nat \<lceil>r0\<rceil>) d (s0\<lparr>startTime := mark\<rparr>)) =
      map_option effects (export_session_p000 (nat \<lceil>r0\<rceil>) d s0))"
  using captureFrames_step [where s = s] exportRender_step [where s = s0]
    captureFrames_mark [where s = s and mark = mark]
    exportRender_mark [where s = s0 and mark = mark]
    export_frame_time [where s = s and t = t] export_frame_p000_time [where s = s0 and t = t]
    frame_time_zero frame_time_nearest [where k = k]
    export_session_frames [where s = s and r = r and br = br]
    export_session_mark [where s = s and r = r and br = br and mark = mark]
    export_session_p000_frames [where s = s0 and r = r0 and d = d]
    export_session_p000_mark [where s = s0 and r = r0 and d = d and mark = mark]
  by blast

lemma startExport_frame:
  assumes "\<not> js_ge (Num 0) (Math_ceil (js_mul (getLoopDuration s) (Num 60)))"
  shows "currentFrame (startExport br s) = 1" and "uniforms (startExport br s) = uniforms s"
  using assms by (simp_all add: startExport_def captureFrames_def emit_def js_inc_def Let_def)

lemma startExport_p000_frame:
  assumes "\<not> js_ge (Num 0) (Math_ceil (js_mul (getLoopDuration s) (Num 60)))"
  shows "currentFrame (startExport_p000 d s) = 1"
    and "uniforms (startExport_p000 d s) = uniforms s"
  using assms by (simp_all add: startExport_p000_def exportRender_def emit_def js_inc_def Let_def)

lemma second_frame_time: "js_div (Num 1) (Num 60) = Num (4803839602528529 / 288230376151711744)"
  by (simp add: num_eval)

lemma built_p001_speed: "speed (params built_p001) = Num 1"
  by (simp add: built_p001_def buildShader_p001_def initGeometry_def construct_p001_def
      emit_def Let_def)

lemma built_p001_time: "uniforms built_p001 ''iTime'' \<noteq> None"
  by (simp add: built_p001_def buildShader_p001_def cache_uniforms_def uniform_names_def
      initGeometry_def construct_p001_def accepting_driver_def emit_def Let_def)

text \<open>
  C4 as the specification states it fails at the second frame of an export at speed 1.0.
  The session counts 377 frames, frame 1 is due, and the time passed to \<^verbatim>\<open>gl.uniform1f\<close> is
  the double \<open>4803839602528529 / 2\<^sup>5\<^sup>8\<close>, which is not \<open>1 / 60\<close>: no double is.
\<close>

theorem export_synthetic_time_counterexample:
  "isExporting started_p001 \<and>
   currentFrame started_p001 = 1 \<and>
   exportFrameCount started_p001 = Num 377 \<and>
   \<not> js_ge (Num (real (currentFrame started_p001))) (exportFrameCount started_p001) \<and>
   new_effects started_p001 (captureFrames started_p001) ! 3 =
     GL (Uniform1f (uniforms started_p001 ''iTime'')
           (Num (4803839602528529 / 288230376151711744))) \<and>
   uniforms started_p001 ''iTime'' \<noteq> None \<and>
   Num (4803839602528529 / 288230376151711744) \<noteq> Num (1 / 60)"
proof -
  have count: "exportFrameCount started_p001 = Num 377"
    by (simp add: started_p001_def startExport_count loop_duration built_p001_speed
        frames_at_speed)
  have "\<not> js_ge (Num 0) (Math_ceil (js_mul (getLoopDuration built_p001) (Num 60)))"
    by (simp add: loop_duration built_p001_speed frames_at_speed js_ge_def)
  then have cur: "currentFrame started_p001 = 1"
    and uni: "uniforms started_p001 = uniforms built_p001"
    unfolding started_p001_def by (rule startExport_frame)+
  have due: "\<not> js_ge (Num (real (currentFrame started_p001))) (exportFrameCount started_p001)"
    by (simp add: cur count js_ge_def)
  have "new_effects started_p001 (captureFrames started_p001) ! 3 =
      GL (Uniform1f (uniforms started_p001 ''iTime'') (js_div (Num 1) (Num 60)))"
    using captureFrames_step [OF due] by (simp add: export_frame_time cur)
  then have time: "new_effects started_p001 (captureFrames started_p001) ! 3 =
      GL (Uniform1f (uniforms started_p001 ''iTime'')
            (Num (4803839602528529 / 288230376151711744)))"
    by (simp only: second_frame_time)
  have exporting: "isExporting started_p001"
    by (simp add: started_p001_def startExport_def captureFrames_def emit_def Let_def)
  have differ: "Num (4803839602528529 / 288230376151711744) \<noteq> Num (1 / 60)"
    by simp
  show ?thesis
    using exporting cur count due time built_p001_time differ unfolding uni by (intro conjI)
qed

theorem export_synthetic_time_witness:
  "\<not> js_ge (Num (real (currentFrame (startExport plain_browser fast_p001))))
       (exportFrameCount (startExport plain_browser fast_p001)) \<and>
   currentFrame (startExport plain_browser fast_p001) = 1 \<and>
   new_effects (startExport plain_browser fast_p001)
       (captureFrames (startExport plain_browser fast_p001)) =
     export_frame (startExport plain_browser fast_p001) (js_div (Num (real 1)) (Num 60)) \<and>
   \<not> js_ge (Num (real (currentFrame (startExport_p000 0 fast_p000))))
       (exportFrameCount (startExport_p000 0 fast_p000)) \<and>
   currentFrame (startExport_p000 0 fast_p000) = 1 \<and>
   new_effects (startExport_p000 0 fast_p000) (exportRender (startExport_p000 0 fast_p000)) =
     export_frame_p000 (startExport_p000 0 fast_p000) (js_div (Num (real 1)) (Num 60)) \<and>
   0 < (1 :: nat) \<and> (1 :: nat) \<le> 2 ^ 53 \<and>
   (\<exists>y. js_div (Num (real 1)) (Num 60) = Num y \<and> \<bar>y - real 1 / 60\<bar> \<le> real 1 / 60 / 2 ^ 53) \<and>
   Math_ceil (js_mul (getLoopDuration fast_p001) (Num 60)) = Num 4 \<and>
   nat \<lceil>4 :: real\<rceil> \<le> 2 ^ 53 \<and>
   (\<exists>s'. export_session 4 plain_browser fast_p001 = Some s' \<and>
      effects s' = [CaptureStream, RecorderStart] @
        concat (map (\<lambda>k. export_frame fast_p001 (js_div (Num (real k)) (Num 60)))
                  [0, 1, 2, 3]) @
        [RecorderStop]) \<and>
   map_option effects (export_session 4 plain_browser (fast_p001\<lparr>startTime := 5000\<rparr>)) =
   map_option effects (export_session 4 plain_browser fast_p001) \<and>
   Math_ceil (js_mul (getLoopDuration fast_p000) (Num 60)) = Num 4 \<and>
   (\<exists>s'. export_session_p000 4 0 fast_p000 = Some s' \<and>
      effects s' = [CapturerStart] @
        concat (map (\<lambda>k. export_frame_p000 fast_p000 (js_div (Num (real k)) (Num 60)))
                  [0, 1, 2, 3]) @
        [CapturerStop, CapturerSave, SetTimeout FinishSavedCb (Num 500)]) \<and>
   map_option effects (export_session_p000 4 0 (fast_p000\<lparr>startTime := 5000\<rparr>)) =
   map_option effects (export_session_p000 4 0 fast_p000)"
proof -
  let ?new = "startExport plain_browser fast_p001"
  let ?old = "startExport_p000 0 fast_p000"
  have speed: "speed (params fast_p001) = Num 120" "speed (params fast_p000) = Num 120"
    by (simp_all add: fast_p001_def fast_p000_def)
  have count: "Math_ceil (js_mul (getLoopDuration fast_p001) (Num 60)) = Num 4"
    and count0: "Math_ceil (js_mul (getLoopDuration fast_p000) (Num 60)) = Num 4"
    by (simp_all add: loop_duration frames_at_speed speed)
  have "\<not> js_ge (Num 0) (Math_ceil (js_mul (getLoopDuration fast_p001) (Num 60)))"
    by (simp add: count js_ge_def)
  then have cur: "currentFrame ?new = 1"
    by (rule startExport_frame)
  have "\<not> js_ge (Num 0) (Math_ceil (js_mul (getLoopDuration fast_p000) (Num 60)))"
    by (simp add: count0 js_ge_def)
  then have cur0: "currentFrame ?old = 1"
    by (rule startExport_p000_frame)
  have due: "\<not> js_ge (Num (real (currentFrame ?new))) (exportFrameCount ?new)"
    by (simp add: cur startExport_count count js_ge_def)
  have due0: "\<not> js_ge (Num (real (currentFrame ?old))) (exportFrameCount ?old)"
    by (simp add: cur0 startExport_p000_count count0 js_ge_def)
  have k: "0 < (1 :: nat)" "(1 :: nat) \<le> 2 ^ 53"
    by simp_all
  have n: "nat \<lceil>4 :: real\<rceil> = 4"
    by simp
  have small: "nat \<lceil>4 :: real\<rceil> \<le> 2 ^ 53"
    unfolding n by simp
  have upt: "[0..<4] = [0, 1, 2, 3 :: nat]"
    by (simp add: upt_rec)
  have start: "effects fast_p001 = []" "effects fast_p000 = []"
    by (simp_all add: fast_p001_def fast_p000_def construct_p001_def construct_p000_def)
  note step = export_synthetic_time
    [where s = ?new and ?s0.0 = ?old and k = 1 and r = 0 and ?r0.0 = 0 and br = plain_browser
       and d = 0 and mark = 0 and t = "Num 0"]
  note session = export_synthetic_time
    [where s = fast_p001 and ?s0.0 = fast_p000 and k = 1 and r = 4 and ?r0.0 = 4
       and br = plain_browser and d = 0 and mark = 5000 and t = "Num 0"]
  have a: "new_effects ?new (captureFrames ?new) =
      export_frame ?new (js_div (Num (real (currentFrame ?new))) (Num 60))"
    using step due by blast
  have b: "new_effects ?old (exportRender ?old) =
      export_frame_p000 ?old (js_div (Num (real (currentFrame ?old))) (Num 60))"
    using step due0 by blast
  have c: "\<exists>y. js_div (Num (real 1)) (Num 60) = Num y \<and>
      \<bar>y - real 1 / 60\<bar> \<le> real 1 / 60 / 2 ^ 53"
    using session k by blast
  have d: "\<exists>s'. export_session (nat \<lceil>4 :: real\<rceil>) plain_browser fast_p001 = Some s' \<and>
      effects s' = effects fast_p001 @ [CaptureStream, RecorderStart] @
        concat (map (\<lambda>k. export_frame fast_p001 (js_div (Num (real k)) (Num 60)))
                  [0..<nat \<lceil>4 :: real\<rceil>]) @
        [RecorderStop]"
    and e: "map_option effects
        (export_session (nat \<lceil>4 :: real\<rceil>) plain_browser (fast_p001\<lparr>startTime := 5000\<rparr>)) =
      map_option effects (export_session (nat \<lceil>4 :: real\<rceil>) plain_browser fast_p001)"
    using session count small by blast+
  have f: "\<exists>s'. export_session_p000 (nat \<lceil>4 :: real\<rceil>) 0 fast_p000 = Some s' \<and>
      effects s' = effects fast_p000 @ [CapturerStart] @
        concat (map (\<lambda>k. export_frame_p000 fast_p000 (js_div (Num (real k)) (Num 60)))
                  [0..<nat \<lceil>4 :: real\<rceil>]) @
        [CapturerStop, CapturerSave, SetTimeout FinishSavedCb (Num 500)]"
    and g: "map_option effects
        (export_session_p000 (nat \<lceil>4 :: real\<rceil>) 0 (fast_p000\<lparr>startTime := 5000\<rparr>)) =
      map_option effects (export_session_p000 (nat \<lceil>4 :: real\<rceil>) 0 fast_p000)"
    using session count0 small by blast+
  have d': "\<exists>s'. export_session 4 plain_browser fast_p001 = Some s' \<and>
      effects s' = [CaptureStream, RecorderStart] @
        concat (map (\<lambda>k. export_frame fast_p001 (js_div (Num (real k)) (Num 60)))
                  [0, 1, 2, 3]) @
        [RecorderStop]"
    using d unfolding n upt start by simp
  have f': "\<exists>s'. export_session_p000 4 0 fast_p000 = Some s' \<and>
      effects s' = [CapturerStart] @
        concat (map (\<lambda>k. export_frame_p000 fast_p000 (js_div (Num (real k)) (Num 60)))
                  [0, 1, 2, 3]) @
        [CapturerStop, CapturerSave, SetTimeout FinishSavedCb (Num 500)]"
    using f unfolding n upt start by simp
  show ?thesis
    using due cur a [unfolded cur] due0 cur0 b [unfolded cur0] k c count small d'
      e [unfolded n] count0 f' g [unfolded n]
    by (intro conjI)
qed

subsection \<open>Starting an export while one is active\<close>

lemma startExport_exporting: "isExporting (startExport br s)"
  by (simp add: startExport_def captureFrames_def emit_def Let_def)

lemma startExport_p000_exporting: "isExporting (startExport_p000 d s)"
  by (simp add: startExport_p000_def exportRender_def finishExport_p000_def emit_def Let_def)

text \<open>
  C5. In every state whose exporting flag is set, the click that asks for an export changes
  nothing: the state after the click is the state before it, so the frame counter, the
  frame count, the recorded chunks, the recorder and the log of effects are what they were,
  and no session is started. This holds in both unnamed files.
\<close>

theorem start_while_exporting_ignored:
  "(isExporting s \<longrightarrow> recordBtn_click br s = s) \<and>
   (isExporting s0 \<longrightarrow> recordBtn_click_p000 d s0 = s0)"
  by (simp add: recordBtn_click_def recordBtn_click_p000_def)

theorem start_while_exporting_ignored_witness:
  "isExporting (startExport plain_browser (construct_p001 0 300 150)) \<and>
   recordBtn_click plain_browser (startExport plain_browser (construct_p001 0 300 150)) =
     startExport plain_browser (construct_p001 0 300 150) \<and>
   isExporting (startExport_p000 0 (construct_p000 0 300 150)) \<and>
   recordBtn_click_p000 0 (startExport_p000 0 (construct_p000 0 300 150)) =
     startExport_p000 0 (construct_p000 0 300 150)"
  using start_while_exporting_ignored
    [of "startExport plain_browser (construct_p001 0 300 150)" plain_browser
        "startExport_p000 0 (construct_p000 0 300 150)" 0]
  by (simp add: startExport_exporting startExport_p000_exporting)

subsection \<open>The end of an export\<close>

lemma render_idle:
  "\<not> isExporting s \<Longrightarrow>
   effects (render t s) =
     effects s @ [GL (ClearColor 0 0 0 1), GL Clear] @
       write_uniforms s (js_div (js_sub (Num t) (Num (startTime s))) (Num 1000)) @
       [GL DrawArrays, RequestAnimationFrame RenderCb]"
  by (simp add: render_def emit_def Let_def)

lemma elapsed_zero: "js_div (js_sub (Num now) (Num now)) (Num 1000) = Num 0"
  by (simp add: js_sub_def js_div_def zero_of_def)

text \<open>
  C6. Every successful finalization of an export stores the current time as the start mark
  and clears the exporting flag. In unnamed/part\_001 the finalization is \<^verbatim>\<open>finishExport\<close>,
  which the handler of the recorder's stop event runs. In unnamed/part\_000 \<^verbatim>\<open>finishExport\<close>
  stops and saves the capture and sets a timer of 500 ms; it leaves the flag and the start
  mark as they are, and the callback of that timer, run at time \<open>now\<close>, stores \<open>now\<close> and
  clears the flag. After either, the live driver draws again on its next tick, with the
  time counted from the finalization: a tick at time \<open>t\<close> writes \<open>(t - now) / 1000\<close>, which
  is zero for a tick at the instant of finalization.
\<close>

theorem finalization_resets_time_origin:
  "mediaRecorder_onstop date_now now s = finishExport date_now now s \<and>
   startTime (finishExport date_now now s) = now \<and>
   \<not> isExporting (finishExport date_now now s) \<and>
   effects (render t (finishExport date_now now s)) =
     effects (finishExport date_now now s) @ [GL (ClearColor 0 0 0 1), GL Clear] @
       write_uniforms s (js_div (js_sub (Num t) (Num now)) (Num 1000)) @
       [GL DrawArrays, RequestAnimationFrame RenderCb] \<and>
   write_uniforms s (js_div (js_sub (Num now) (Num now)) (Num 1000)) ! 1 =
     GL (Uniform1f (uniforms s ''iTime'') (Num 0)) \<and>
   new_effects s0 (finishExport_p000 s0) =
     [CapturerStop, CapturerSave, SetTimeout FinishSavedCb (Num 500)] \<and>
   isExporting (finishExport_p000 s0) = isExporting s0 \<and>
   startTime (finishExport_p000 s0) = startTime s0 \<and>
   run_callback_p000 FinishSavedCb now (finishExport_p000 s0) =
     finishSaved_p000 now (finishExport_p000 s0) \<and>
   startTime (run_callback_p000 FinishSavedCb now (finishExport_p000 s0)) = now \<and>
   \<not> isExporting (run_callback_p000 FinishSavedCb now (finishExport_p000 s0)) \<and>
   effects (render t (run_callback_p000 FinishSavedCb now (finishExport_p000 s0))) =
     effects (run_callback_p000 FinishSavedCb now (finishExport_p000 s0)) @
       [GL (ClearColor 0 0 0 1), GL Clear] @
       write_uniforms s0 (js_div (js_sub (Num t) (Num now)) (Num 1000)) @
       [GL DrawArrays, RequestAnimationFrame RenderCb] \<and>
   startTime (finishSaved_p000 now s0) = now \<and>
   \<not> isExporting (finishSaved_p000 now s0) \<and>
   effects (render t (finishSaved_p000 now s0)) =
     effects (finishSaved_p000 now s0) @ [GL (ClearColor 0 0 0 1), GL Clear] @
       write_uniforms s0 (js_div (js_sub (Num t) (Num now)) (Num 1000)) @
       [GL DrawArrays, RequestAnimationFrame RenderCb]"
proof -
  let ?saved = "run_callback_p000 FinishSavedCb now (finishExport_p000 s0)"
  have p001: "startTime (finishExport date_now now s) = now"
    "\<not> isExporting (finishExport date_now now s)"
    "write_uniforms (finishExport date_now now s) = write_uniforms s"
    by (simp_all add: finishExport_def emit_def Let_def write_uniforms_def fun_eq_iff)
  have p000: "startTime (finishSaved_p000 now s0) = now"
    "\<not> isExporting (finishSaved_p000 now s0)"
    "write_uniforms (finishSaved_p000 now s0) = write_uniforms s0"
    by (simp_all add: finishSaved_p000_def emit_def write_uniforms_def fun_eq_iff)
  have finish: "new_effects s0 (finishExport_p000 s0) =
      [CapturerStop, CapturerSave, SetTimeout FinishSavedCb (Num 500)]"
    "isExporting (finishExport_p000 s0) = isExporting s0"
    "startTime (finishExport_p000 s0) = startTime s0"
    by (simp_all add: finishExport_p000_def new_effects_def emit_def)
  have saved: "startTime ?saved = now" "\<not> isExporting ?saved"
    "write_uniforms ?saved = write_uniforms s0"
    by (simp_all add: finishSaved_p000_def finishExport_p000_def emit_def write_uniforms_def
        fun_eq_iff)
  have zero: "write_uniforms s (js_div (js_sub (Num now) (Num now)) (Num 1000)) ! 1 =
      GL (Uniform1f (uniforms s ''iTime'') (Num 0))"
    by (simp add: write_uniforms_def elapsed_zero)
  have live: "effects (render t (finishExport date_now now s)) =
      effects (finishExport date_now now s) @ [GL (ClearColor 0 0 0 1), GL Clear] @
        write_uniforms s (js_div (js_sub (Num t) (Num now)) (Num 1000)) @
        [GL DrawArrays, RequestAnimationFrame RenderCb]"
    using render_idle [OF p001(2), of t] by (simp only: p001)
  have live0: "effects (render t (finishSaved_p000 now s0)) =
      effects (finishSaved_p000 now s0) @ [GL (ClearColor 0 0 0 1), GL Clear] @
        write_uniforms s0 (js_div (js_sub (Num t) (Num now)) (Num 1000)) @
        [GL DrawArrays, RequestAnimationFrame RenderCb]"
    using render_idle [OF p000(2), of t] by (simp only: p000)
  have live1: "effects (render t ?saved) =
      effects ?saved @ [GL (ClearColor 0 0 0 1), GL Clear] @
        write_uniforms s0 (js_div (js_sub (Num t) (Num now)) (Num 1000)) @
        [GL DrawArrays, RequestAnimationFrame RenderCb]"
    using render_idle [OF saved(2), of t] by (simp only: saved)
  have stop: "mediaRecorder_onstop date_now now s = finishExport date_now now s"
    by (simp add: mediaRecorder_onstop_def)
  have callback: "run_callback_p000 FinishSavedCb now (finishExport_p000 s0) =
      finishSaved_p000 now (finishExport_p000 s0)"
    by simp
  show ?thesis
    using stop p001(1,2) live zero finish callback saved(1,2) live1 p000(1,2) live0
    by (intro conjI)
qed

subsection \<open>The live driver during an export\<close>

lemma render_while_exporting:
  "isExporting s \<Longrightarrow> render now s = s\<lparr>effects := effects s @ [RequestAnimationFrame RenderCb]\<rparr>"
  by (simp add: render_def emit_def)

lemma render_fields:
  "params (render now s) = params s" "uniforms (render now s) = uniforms s"
  "isExporting (render now s) = isExporting s" "currentFrame (render now s) = currentFrame s"
  "exportFrameCount (render now s) = exportFrameCount s" "startTime (render now s) = startTime s"
  by (simp_all add: render_def emit_def Let_def)

lemma onerror_fields:
  "\<not> isExporting (mediaRecorder_onerror m s)"
  "currentFrame (mediaRecorder_onerror m s) = currentFrame s"
  "exportFrameCount (mediaRecorder_onerror m s) = exportFrameCount s"
  "startTime (mediaRecorder_onerror m s) = startTime s"
  "effects (mediaRecorder_onerror m s) = effects s @ [ConsoleErrorEvent ''MediaRecorder error:'' m]"
  by (simp_all add: mediaRecorder_onerror_def emit_def Let_def)

lemma captureFrames_flag: "isExporting (captureFrames s) = isExporting s"
  by (simp add: captureFrames_def emit_def Let_def)

lemma captureFrames_origin: "startTime (captureFrames s) = startTime s"
  by (simp add: captureFrames_def emit_def Let_def)

lemma startExport_origin: "startTime (startExport br s) = startTime s"
  by (simp add: startExport_def captureFrames_origin emit_def Let_def)

lemma startExport_timer:
  assumes "\<not> js_ge (Num 0) (Math_ceil (js_mul (getLoopDuration s) (Num 60)))"
  shows "last (effects (startExport br s)) =
    SetTimeout CaptureFramesCb (js_div (Num 1000) (Num 60))"
  using assms by (simp add: startExport_def captureFrames_def emit_def Let_def)

lemma export_frame_draws: "filter draws (export_frame s t) \<noteq> []"
  by (simp add: export_frame_def write_uniforms_def)

lemma render_draws:
  "\<not> isExporting s \<Longrightarrow>
   new_effects s (render t s) ! 3 =
     GL (Uniform1f (uniforms s ''iTime'') (js_div (js_sub (Num t) (Num (startTime s))) (Num 1000))) \<and>
   filter draws (new_effects s (render t s)) \<noteq> []"
  by (simp add: new_effects_def render_idle write_uniforms_def)

text \<open>
  C7, at a session of unnamed/part\_001 in which the encoder reports an error. The page's
  live driver runs from the constructor on, and the export starts at speed 1.0 (377 frames).
  While the exporting flag is set, a tick of the live driver only asks for its next tick:
  no uniform is written and nothing is drawn. The error handler then clears the flag and
  leaves the timer of \<^verbatim>\<open>captureFrames\<close> pending. From there on the two drivers are not
  mutually exclusive: the timer draws frame 1 of the export with the time
  \<open>4803839602528529 / 2\<^sup>5\<^sup>8\<close>, the next tick of the live driver draws with the time
  \<open>(32 - 0) / 1000\<close>, and the timer after it draws frame 2 of the export.
\<close>

theorem live_driver_draws_during_failed_export:
  "isExporting exporting_p001 \<and>
   RequestAnimationFrame RenderCb \<in> set (effects exporting_p001) \<and>
   last (effects exporting_p001) = SetTimeout CaptureFramesCb (js_div (Num 1000) (Num 60)) \<and>
   run_callback RenderCb 16 exporting_p001 =
     exporting_p001\<lparr>effects := effects exporting_p001 @ [RequestAnimationFrame RenderCb]\<rparr> \<and>
   filter draws (new_effects exporting_p001 (run_callback RenderCb 16 exporting_p001)) = [] \<and>
   \<not> isExporting errored_p001 \<and>
   effects errored_p001 =
     effects exporting_p001 @
       [RequestAnimationFrame RenderCb,
        ConsoleErrorEvent ''MediaRecorder error:'' (Some ''encoder failed'')] \<and>
   currentFrame errored_p001 = 1 \<and>
   exportFrameCount errored_p001 = Num 377 \<and>
   new_effects errored_p001 (run_callback CaptureFramesCb 17 errored_p001) =
     export_frame errored_p001 (Num (4803839602528529 / 288230376151711744)) \<and>
   filter draws (new_effects errored_p001 (run_callback CaptureFramesCb 17 errored_p001)) \<noteq> [] \<and>
   new_effects (run_callback CaptureFramesCb 17 errored_p001)
       (run_callback RenderCb 32 (run_callback CaptureFramesCb 17 errored_p001)) ! 3 =
     GL (Uniform1f (uniforms errored_p001 ''iTime'')
           (Num (1152921504606847 / 36028797018963968))) \<and>
   filter draws
     (new_effects (run_callback CaptureFramesCb 17 errored_p001)
        (run_callback RenderCb 32 (run_callback CaptureFramesCb 17 errored_p001))) \<noteq> [] \<and>
   filter draws
     (new_effects (run_callback RenderCb 32 (run_callback CaptureFramesCb 17 errored_p001))
        (run_callback CaptureFramesCb 34
           (run_callback RenderCb 32 (run_callback CaptureFramesCb 17 errored_p001)))) \<noteq> []"
proof -
  let ?tick = "render 16 exporting_p001"
  let ?frame = "captureFrames errored_p001"
  let ?live = "render 32 ?frame"
  have speed: "speed (params live_p001) = Num 1"
    by (simp add: live_p001_def render_fields built_p001_speed)
  have origin: "startTime live_p001 = 0"
    by (simp add: live_p001_def render_fields built_p001_def buildShader_p001_def
        initGeometry_def construct_p001_def emit_def Let_def)
  have pending: "RequestAnimationFrame RenderCb \<in> set (effects live_p001)"
    by (simp add: live_p001_def render_def emit_def Let_def)
  have count: "Math_ceil (js_mul (getLoopDuration live_p001) (Num 60)) = Num 377"
    by (simp add: loop_duration speed frames_at_speed)
  have first: "\<not> js_ge (Num 0) (Math_ceil (js_mul (getLoopDuration live_p001) (Num 60)))"
    by (simp add: count js_ge_def)
  have flag: "isExporting exporting_p001"
    unfolding exporting_p001_def by (rule startExport_exporting)
  have cur: "currentFrame exporting_p001 = 1"
    unfolding exporting_p001_def using first by (rule startExport_frame)
  have cnt: "exportFrameCount exporting_p001 = Num 377"
    by (simp add: exporting_p001_def startExport_count count)
  have timer: "last (effects exporting_p001) =
      SetTimeout CaptureFramesCb (js_div (Num 1000) (Num 60))"
    unfolding exporting_p001_def using first by (rule startExport_timer)
  have "\<exists>s5. startExport plain_browser live_p001 = captureFrames s5 \<and>
      effects s5 = effects live_p001 @ [CaptureStream, RecorderStart]"
    using startExport_call [of plain_browser live_p001] by blast
  then obtain s5 where call: "exporting_p001 = captureFrames s5"
    and eff5: "effects s5 = effects live_p001 @ [CaptureStream, RecorderStart]"
    unfolding exporting_p001_def by blast
  have "set (effects s5) \<subseteq> set (effects (captureFrames s5))"
    by (auto simp: captureFrames_def emit_def Let_def)
  then have raf: "RequestAnimationFrame RenderCb \<in> set (effects exporting_p001)"
    using pending by (auto simp: call eff5)
  have tick: "?tick =
      exporting_p001\<lparr>effects := effects exporting_p001 @ [RequestAnimationFrame RenderCb]\<rparr>"
    using flag by (rule render_while_exporting)
  have idle: "filter draws (new_effects exporting_p001 ?tick) = []"
    unfolding tick by (simp add: new_effects_def)
  have err: "errored_p001 = mediaRecorder_onerror (Some ''encoder failed'') ?tick"
    by (simp add: errored_p001_def)
  have cleared: "\<not> isExporting errored_p001"
    unfolding err by (rule onerror_fields)
  have log: "effects errored_p001 = effects exporting_p001 @
      [RequestAnimationFrame RenderCb,
       ConsoleErrorEvent ''MediaRecorder error:'' (Some ''encoder failed'')]"
    unfolding err onerror_fields tick by simp
  have cur1: "currentFrame errored_p001 = 1"
    and cnt1: "exportFrameCount errored_p001 = Num 377"
    unfolding err onerror_fields tick by (simp_all add: cur cnt)
  have origin1: "startTime errored_p001 = 0"
    unfolding err onerror_fields tick
    by (simp add: exporting_p001_def startExport_origin origin)
  have due: "\<not> js_ge (Num (real (currentFrame errored_p001))) (exportFrameCount errored_p001)"
    by (simp add: cur1 cnt1 js_ge_def)
  have frame: "new_effects errored_p001 ?frame =
      export_frame errored_p001 (Num (4803839602528529 / 288230376151711744))"
    using captureFrames_step [OF due] by (simp add: cur1 second_frame_time)
  have draws1: "filter draws (new_effects errored_p001 ?frame) \<noteq> []"
    unfolding frame by (rule export_frame_draws)
  have flag2: "\<not> isExporting ?frame"
    using cleared by (simp add: captureFrames_flag)
  have fields2: "uniforms ?frame = uniforms errored_p001" "startTime ?frame = 0"
    "currentFrame ?frame = 2" "exportFrameCount ?frame = Num 377"
    using captureFrames_draw(2,3,4) [OF due]
    by (simp_all add: captureFrames_origin origin1 cur1 cnt1 js_inc_def)
  have elapsed: "js_div (js_sub (Num 32) (Num 0)) (Num 1000) =
      Num (1152921504606847 / 36028797018963968)"
    by (simp add: num_eval)
  have live: "new_effects ?frame ?live ! 3 =
      GL (Uniform1f (uniforms errored_p001 ''iTime'')
            (Num (1152921504606847 / 36028797018963968)))"
    and draws2: "filter draws (new_effects ?frame ?live) \<noteq> []"
    using render_draws [OF flag2, of 32] by (simp_all add: fields2 elapsed)
  have due3: "\<not> js_ge (Num (real (currentFrame ?live))) (exportFrameCount ?live)"
    by (simp add: render_fields fields2 js_ge_def)
  have "new_effects ?live (captureFrames ?live) =
      export_frame ?live (js_div (Num (real (currentFrame ?live))) (Num 60))"
    using due3 by (rule captureFrames_step)
  then have draws3: "filter draws (new_effects ?live (captureFrames ?live)) \<noteq> []"
    by (simp only: export_frame_draws not_False_eq_True)
  show ?thesis
    unfolding run_callback.simps
    using flag raf timer tick idle cleared log cur1 cnt1 frame draws1 live draws2 draws3
    by (intro conjI)
qed

subsection \<open>Rebuilding the pipeline\<close>









subsection \<open>An encoder error during an export\<close>

lemma onerror_keeps_chunks:
  "recordedChunks (mediaRecorder_onerror m s) = recordedChunks s \<and>
   new_effects (mediaRecorder_onerror m s)
     (mediaRecorder_onstop date_now now (mediaRecorder_onerror m s)) =
     [Download [Str ''shader_'', Str (variation (params s)), Str ''_'', Number (Num date_now),
                Str ''.webm''] (recordedChunks s),
      SetTimeout ClearInfoCb (Num 3000)]"
  by (simp add: mediaRecorder_onerror_def mediaRecorder_onstop_def finishExport_def
      new_effects_def emit_def Let_def)

lemma onerror_keeps_loop:
  "\<not> js_ge (Num (real (currentFrame s))) (exportFrameCount s) \<Longrightarrow>
   new_effects (mediaRecorder_onerror m s) (captureFrames (mediaRecorder_onerror m s)) =
     export_frame s (js_div (Num (real (currentFrame s))) (Num 60))"
  by (simp add: mediaRecorder_onerror_def captureFrames_def export_frame_def new_effects_def
      write_uniforms_def emit_def Let_def)

text \<open>
  C8, at a session of unnamed/part\_001 in which one chunk has been recorded and the encoder
  then reports an error. The handler clears the exporting flag, enables the button again
  and shows the error text. It keeps the recorded chunk, and it stops neither the timer
  that \<^verbatim>\<open>captureFrames\<close> has set nor the handler of the stop event: the next timer tick
  draws the next frame, and the stop event that follows makes \<^verbatim>\<open>finishExport\<close> download a
  file built from the partial chunk and announce that the download is complete. The same
  happens when the recorder delivers one more chunk between the error and the stop event:
  the file is then built from both chunks.
\<close>

theorem encoder_error_still_downloads:
  "\<not> isExporting failed_p001 \<and>
   \<not> button_disabled failed_p001 \<and>
   \<not> button_recording failed_p001 \<and>
   textEl failed_p001 = [Str ''Export failed''] \<and>
   infoEl failed_p001 = [Str ''encoder failed''] \<and>
   recordedChunks failed_p001 = [''partial''] \<and>
   SetTimeout CaptureFramesCb (js_div (Num 1000) (Num 60)) \<in> set (effects failed_p001) \<and>
   new_effects failed_p001 (captureFrames failed_p001) =
     export_frame failed_p001 (Num (4803839602528529 / 288230376151711744)) \<and>
   new_effects failed_p001 (mediaRecorder_onstop 1000 2000 failed_p001) =
     [Download [Str ''shader_'', Str ''rocaille'', Str ''_'', Number (Num 1000), Str ''.webm'']
        [''partial''],
      SetTimeout ClearInfoCb (Num 3000)] \<and>
   infoEl (mediaRecorder_onstop 1000 2000 failed_p001) = [Str ''Download complete!''] \<and>
   new_effects (mediaRecorder_ondataavailable ''rest'' failed_p001)
       (mediaRecorder_onstop 1000 2000 (mediaRecorder_ondataavailable ''rest'' failed_p001)) =
     [Download [Str ''shader_'', Str ''rocaille'', Str ''_'', Number (Num 1000), Str ''.webm'']
        [''partial'', ''rest''],
      SetTimeout ClearInfoCb (Num 3000)] \<and>
   infoEl (mediaRecorder_onstop 1000 2000 (mediaRecorder_ondataavailable ''rest'' failed_p001)) =
     [Str ''Download complete!'']"
proof -
  let ?started = "startExport plain_browser built_p001"
  have tag: "variation (params built_p001) = ''rocaille''"
    by (simp add: built_p001_def buildShader_p001_def initGeometry_def construct_p001_def
        emit_def Let_def)
  have count: "Math_ceil (js_mul (getLoopDuration built_p001) (Num 60)) = Num 377"
    by (simp add: loop_duration built_p001_speed frames_at_speed)
  have first: "\<not> js_ge (Num 0) (Math_ceil (js_mul (getLoopDuration built_p001) (Num 60)))"
    by (simp add: count js_ge_def)
  have cur: "currentFrame ?started = 1"
    using first by (rule startExport_frame)
  have cnt: "exportFrameCount ?started = Num 377"
    by (simp add: startExport_count count)
  have timer: "last (effects ?started) = SetTimeout CaptureFramesCb (js_div (Num 1000) (Num 60))"
    using first by (rule startExport_timer)
  have fields: "recordedChunks ?started = []" "params ?started = params built_p001"
    "effects ?started \<noteq> []"
    by (simp_all add: startExport_def captureFrames_def emit_def Let_def)
  have rec: "recording_p001 = ?started\<lparr>recordedChunks := [''partial'']\<rparr>"
    by (simp add: recording_p001_def mediaRecorder_ondataavailable_def fields)
  have due: "\<not> js_ge (Num (real (currentFrame recording_p001))) (exportFrameCount recording_p001)"
    by (simp add: rec cur cnt js_ge_def)
  have frame: "export_frame failed_p001 = export_frame recording_p001"
    by (rule ext)
      (simp add: failed_p001_def mediaRecorder_onerror_def export_frame_def write_uniforms_def
        emit_def Let_def)
  have "SetTimeout CaptureFramesCb (js_div (Num 1000) (Num 60)) \<in> set (effects ?started)"
    using timer fields(3) last_in_set by metis
  then have pending:
    "SetTimeout CaptureFramesCb (js_div (Num 1000) (Num 60)) \<in> set (effects failed_p001)"
    by (simp add: failed_p001_def onerror_fields rec)
  have handler: "\<not> isExporting failed_p001" "\<not> button_disabled failed_p001"
    "\<not> button_recording failed_p001" "textEl failed_p001 = [Str ''Export failed'']"
    "infoEl failed_p001 = [Str ''encoder failed'']"
    "recordedChunks failed_p001 = [''partial'']"
    "variation (params failed_p001) = ''rocaille''"
    by (simp_all add: failed_p001_def mediaRecorder_onerror_def rec fields tag emit_def Let_def)
  have loop: "new_effects failed_p001 (captureFrames failed_p001) =
      export_frame failed_p001 (Num (4803839602528529 / 288230376151711744))"
    unfolding frame
    using onerror_keeps_loop [OF due, of "Some ''encoder failed''"]
    by (simp add: failed_p001_def rec cur second_frame_time)
  have stop: "new_effects failed_p001 (mediaRecorder_onstop 1000 2000 failed_p001) =
      [Download [Str ''shader_'', Str ''rocaille'', Str ''_'', Number (Num 1000), Str ''.webm'']
         [''partial''],
       SetTimeout ClearInfoCb (Num 3000)]"
    and told: "infoEl (mediaRecorder_onstop 1000 2000 failed_p001) = [Str ''Download complete!'']"
    by (simp_all add: mediaRecorder_onstop_def finishExport_def new_effects_def handler
        emit_def Let_def)
  have late: "mediaRecorder_ondataavailable ''rest'' failed_p001 =
      failed_p001\<lparr>recordedChunks := [''partial'', ''rest'']\<rparr>"
    by (simp add: mediaRecorder_ondataavailable_def handler)
  have stop2: "new_effects (mediaRecorder_ondataavailable ''rest'' failed_p001)
        (mediaRecorder_onstop 1000 2000 (mediaRecorder_ondataavailable ''rest'' failed_p001)) =
      [Download [Str ''shader_'', Str ''rocaille'', Str ''_'', Number (Num 1000), Str ''.webm'']
         [''partial'', ''rest''],
       SetTimeout ClearInfoCb (Num 3000)]"
    and told2: "infoEl (mediaRecorder_onstop 1000 2000
        (mediaRecorder_ondataavailable ''rest'' failed_p001)) = [Str ''Download complete!'']"
    unfolding late
    by (simp_all add: mediaRecorder_onstop_def finishExport_def new_effects_def handler
        emit_def Let_def)
  show ?thesis
    using handler(1-6) pending loop stop told stop2 told2 by (intro conjI)
qed


end
